theory Spec2Isabelle
  imports Main "HOL-Library.Char_ord"
begin

section \<open>Strings\<close>

text \<open>
  A JavaScript string is a sequence of UTF-16 code units. It is modelled as a \<^typ>\<open>string\<close>
  whose characters are the code units below 256 (ASCII and Latin-1), read by their code.
  White space is what \<^verbatim>\<open>String.prototype.trim\<close> and the regular expression class
  \<^verbatim>\<open>\s\<close> accept in that range: TAB, LF, VT, FF, CR, SPACE and NBSP.
\<close>

definition isWhiteSpace :: "char \<Rightarrow> bool" where
  "isWhiteSpace c =
     (c \<in> {CHR 0x09, CHR 0x0A, CHR 0x0B, CHR 0x0C, CHR 0x0D, CHR 0x20, CHR 0xA0})"

definition trim :: "string \<Rightarrow> string" where
  "trim s = rev (dropWhile isWhiteSpace (rev (dropWhile isWhiteSpace s)))"

text \<open>
  Case mapping of one code unit. \<^verbatim>\<open>toUpperCase\<close> maps the sharp s (0xDF) to two
  letters; the micro sign (0xB5) and y with diaeresis (0xFF) have upper-case forms above
  255, which this alphabet cannot hold, and are left as they are.
\<close>

definition lowerChar :: "char \<Rightarrow> char" where
  "lowerChar c =
     (let n = (of_char c :: nat) in
      if (65 \<le> n \<and> n \<le> 90) \<or> (192 \<le> n \<and> n \<le> 222 \<and> n \<noteq> 215)
      then char_of (n + 32) else c)"

definition upperChar :: "char \<Rightarrow> string" where
  "upperChar c =
     (let n = (of_char c :: nat) in
      if (97 \<le> n \<and> n \<le> 122) \<or> (224 \<le> n \<and> n \<le> 254 \<and> n \<noteq> 247)
      then [char_of (n - 32)]
      else if n = 223 then ''SS'' else [c])"

definition toLowerCase :: "string \<Rightarrow> string" where
  "toLowerCase s = map lowerChar s"

definition toUpperCase :: "string \<Rightarrow> string" where
  "toUpperCase s = concat (map upperChar s)"

fun startsWith :: "string \<Rightarrow> string \<Rightarrow> bool" where
  "startsWith s [] = True"
| "startsWith [] (p # ps) = False"
| "startsWith (c # cs) (p # ps) = (c = p \<and> startsWith cs ps)"

fun includesStr :: "string \<Rightarrow> string \<Rightarrow> bool" where
  "includesStr [] p = (p = [])"
| "includesStr (c # cs) p = (startsWith (c # cs) p \<or> includesStr cs p)"

text \<open>\<^verbatim>\<open>String(value || '')\<close> on a value that is a string or absent (null, undefined).\<close>

definition stringOrEmpty :: "string option \<Rightarrow> string" where
  "stringOrEmpty v = (case v of None \<Rightarrow> [] | Some s \<Rightarrow> s)"

text \<open>The classes \<^verbatim>\<open>\d\<close> and \<^verbatim>\<open>\w\<close> of a regular expression without the unicode flag.\<close>

definition isDigit :: "char \<Rightarrow> bool" where
  "isDigit c = (c \<in> set ''0123456789'')"

definition isWordChar :: "char \<Rightarrow> bool" where
  "isWordChar c =
     (isDigit c \<or> c \<in> set ''abcdefghijklmnopqrstuvwxyzABCDEFGHIJKLMNOPQRSTUVWXYZ_'')"


section \<open>Constants\<close>

definition MAX_KEYWORDS :: nat where "MAX_KEYWORDS = 50"
definition MAX_TRACKED_KEYWORDS_ADD :: nat where "MAX_TRACKED_KEYWORDS_ADD = 200"
definition DEFAULT_POLL_INTERVAL_SECONDS :: int where "DEFAULT_POLL_INTERVAL_SECONDS = 3"
definition DEFAULT_REGION :: string where "DEFAULT_REGION = ''US''"
definition DEFAULT_PLATFORM :: string where "DEFAULT_PLATFORM = ''iphone''"
definition APP_ID_MIN_LENGTH :: nat where "APP_ID_MIN_LENGTH = 6"
definition MAX_PLANNED_TRACKED_APP_ID_LENGTH :: nat where
  "MAX_PLANNED_TRACKED_APP_ID_LENGTH = 64"
definition API_BASE_URL :: string where "API_BASE_URL = ''https://server.asosuite.com''"

definition SUPPORTED_PLATFORMS :: "string list" where
  "SUPPORTED_PLATFORMS = [''iphone'', ''ipad'', ''mac'', ''appletv'', ''watch'', ''vision'']"

section \<open>Input normalizers\<close>

text \<open>
  A JSON value as \<^verbatim>\<open>JSON.parse\<close> returns it and \<^verbatim>\<open>JSON.stringify\<close> takes it. The
  program passes numbers through without looking at them; they are held as integers.
\<close>

datatype json =
    JNull
  | JBool bool
  | JNum int
  | JStr string
  | JArr "json list"
  | JObj "(string \<times> json) list"

text \<open>
  What the program throws: a plain \<^verbatim>\<open>Error\<close> with its message, the gateway's error
  with the HTTP status and payload attached, and the platform's own exceptions.
\<close>

datatype error =
    Error string
  | HttpError string nat json
  | TypeError string
  | SyntaxError string
  | SystemError string

definition normalizePlatform :: "string option \<Rightarrow> string option" where
  "normalizePlatform v =
     (let normalized = toLowerCase (trim (stringOrEmpty v)) in
      if normalized \<notin> set SUPPORTED_PLATFORMS then None else Some normalized)"

text \<open>The test \<^verbatim>\<open>/^[A-Z]{2}$/\<close>.\<close>

definition isUpperAZ :: "char \<Rightarrow> bool" where
  "isUpperAZ c = (c \<in> set ''ABCDEFGHIJKLMNOPQRSTUVWXYZ'')"

definition normalizeRegionCode :: "string option \<Rightarrow> string option" where
  "normalizeRegionCode v =
     (let normalized = toUpperCase (trim (stringOrEmpty v)) in
      if \<not> (length normalized = 2 \<and> list_all isUpperAZ normalized) then None
      else Some normalized)"




definition normalizePlannedTrackedAppId :: "string option \<Rightarrow> string option" where
  "normalizePlannedTrackedAppId v =
     (let normalized = filter (\<lambda>c. \<not> isWhiteSpace c) (trim (stringOrEmpty v)) in
      if normalized = [] then None
      else if length normalized > MAX_PLANNED_TRACKED_APP_ID_LENGTH then None
      else Some normalized)"

subsection \<open>App locators\<close>

definition isLetterI :: "char \<Rightarrow> bool" where
  "isLetterI c = (c = CHR ''i'' \<or> c = CHR ''I'')"

definition isLetterD :: "char \<Rightarrow> bool" where
  "isLetterD c = (c = CHR ''d'' \<or> c = CHR ''D'')"

text \<open>\<^verbatim>\<open>^id(\d{6,})$\<close> with the flag \<^verbatim>\<open>i\<close>: the value is the captured digit run.\<close>

definition matchPrefixed :: "string \<Rightarrow> string option" where
  "matchPrefixed s =
     (case s of
        i # d # ds \<Rightarrow>
          if isLetterI i \<and> isLetterD d \<and> APP_ID_MIN_LENGTH \<le> length ds \<and> list_all isDigit ds
          then Some ds else None
      | _ \<Rightarrow> None)"

text \<open>\<^verbatim>\<open>^(\d{6,})$\<close>.\<close>

definition matchRaw :: "string \<Rightarrow> string option" where
  "matchRaw s =
     (if APP_ID_MIN_LENGTH \<le> length s \<and> list_all isDigit s then Some s else None)"

text \<open>
  \<^verbatim>\<open>/id(\d{6,})(?:/|$)\<close> with the flag \<^verbatim>\<open>i\<close>, first anchored at the head of the
  text, then searched from left to right as \<^verbatim>\<open>String.prototype.match\<close> does. The
  greedy digit run is maximal: giving a digit back leaves a digit in front of the
  closing group, which then fails.
\<close>

definition pathIdAt :: "string \<Rightarrow> string option" where
  "pathIdAt s =
     (case s of
        sl # i # d # r \<Rightarrow>
          if sl = CHR ''/'' \<and> isLetterI i \<and> isLetterD d then
            (let ds = takeWhile isDigit r; after = dropWhile isDigit r in
             if APP_ID_MIN_LENGTH \<le> length ds \<and> (after = [] \<or> hd after = CHR ''/'')
             then Some ds else None)
          else None
      | _ \<Rightarrow> None)"

fun matchFromPath :: "string \<Rightarrow> string option" where
  "matchFromPath [] = None"
| "matchFromPath (c # cs) =
     (case pathIdAt (c # cs) of Some ds \<Rightarrow> Some ds | None \<Rightarrow> matchFromPath cs)"

text \<open>
  \<^verbatim>\<open>\bid(\d{6,})\b\<close> with the flag \<^verbatim>\<open>i\<close>, searched from left to right. The flag
  of \<open>matchEmbedded\<close> says whether the character before the current position is a word
  character: the leading \<^verbatim>\<open>\b\<close> holds when it is not.
\<close>

definition embeddedIdAt :: "string \<Rightarrow> string option" where
  "embeddedIdAt s =
     (case s of
        i # d # r \<Rightarrow>
          if isLetterI i \<and> isLetterD d then
            (let ds = takeWhile isDigit r; after = dropWhile isDigit r in
             if APP_ID_MIN_LENGTH \<le> length ds \<and> (after = [] \<or> \<not> isWordChar (hd after))
             then Some ds else None)
          else None
      | _ \<Rightarrow> None)"

fun matchEmbedded :: "bool \<Rightarrow> string \<Rightarrow> string option" where
  "matchEmbedded prevWord [] = None"
| "matchEmbedded prevWord (c # cs) =
     (case (if prevWord then None else embeddedIdAt (c # cs)) of
        Some ds \<Rightarrow> Some ds
      | None \<Rightarrow> matchEmbedded (isWordChar c) cs)"

text \<open>
  \<open>parseAppInput\<close> takes the platform's URL parser as a parameter: \<open>url s\<close> is the
  \<^verbatim>\<open>pathname\<close> of \<^verbatim>\<open>new URL(s)\<close>, or the exception the constructor throws. The
  \<^verbatim>\<open>try\<close> block catches that exception and goes on to the next strategy.
\<close>

definition parseAppInput :: "(string \<Rightarrow> error + string) \<Rightarrow> string option \<Rightarrow> string option" where
  "parseAppInput url v =
     (let trimmed = trim (stringOrEmpty v) in
      if trimmed = [] then None
      else case matchPrefixed trimmed of
        Some appId \<Rightarrow> Some appId
      | None \<Rightarrow>
         (case matchRaw trimmed of
            Some appId \<Rightarrow> Some appId
          | None \<Rightarrow>
             (case (case url trimmed of
                      Inr pathname \<Rightarrow> matchFromPath pathname
                    | Inl _ \<Rightarrow> None) of
                Some appId \<Rightarrow> Some appId
              | None \<Rightarrow> matchEmbedded False trimmed)))"

subsection \<open>Keyword lists\<close>

definition isQuote :: "char \<Rightarrow> bool" where
  "isQuote c = (c = CHR 0x22 \<or> c = CHR 0x27)"

text \<open>
  \<^verbatim>\<open>value.replace(/^["']+|["']+$/g, '')\<close>: the first alternative removes the run of
  quotes at the head, the second the run of quotes that reaches the end.
\<close>

definition stripQuotes :: "string \<Rightarrow> string" where
  "stripQuotes s = rev (dropWhile isQuote (rev (dropWhile isQuote s)))"

text \<open>
  \<^verbatim>\<open>value.replace(/\s+/g, ' ')\<close>: every maximal run of white space becomes one space.
  The flag says whether the previous character belonged to a run already replaced.
\<close>

fun collapseFrom :: "bool \<Rightarrow> string \<Rightarrow> string" where
  "collapseFrom inRun [] = []"
| "collapseFrom inRun (c # cs) =
     (if isWhiteSpace c
      then (if inRun then collapseFrom True cs else CHR '' '' # collapseFrom True cs)
      else c # collapseFrom False cs)"

definition collapseWhiteSpace :: "string \<Rightarrow> string" where
  "collapseWhiteSpace s = collapseFrom False s"

definition normalizeKeywordArgs :: "string list \<Rightarrow> string list" where
  "normalizeKeywordArgs rest =
     filter (\<lambda>v. length v > 0)
       (map (\<lambda>v. trim (collapseWhiteSpace v))
         (map (\<lambda>v. stripQuotes v)
           (map (\<lambda>v. trim (stringOrEmpty (Some v))) rest)))"

subsection \<open>Dates\<close>



section \<open>Command-line arguments\<close>

text \<open>
  The handlers mutate the argument array \<^verbatim>\<open>rest\<close> in place; here every function
  returns the array it leaves behind. \<open>indexOf\<close> is the first position of an element.
\<close>

fun indexOf :: "string list \<Rightarrow> string \<Rightarrow> nat option" where
  "indexOf [] name = None"
| "indexOf (x # xs) name =
     (if x = name then Some 0
      else case indexOf xs name of None \<Rightarrow> None | Some i \<Rightarrow> Some (Suc i))"

definition takeOption :: "string list \<Rightarrow> string \<Rightarrow> error + (string option \<times> string list)" where
  "takeOption rest name =
     (case indexOf rest name of
        None \<Rightarrow> Inr (None, rest)
      | Some index \<Rightarrow>
          if index = length rest - 1 then Inl (Error (''Missing value for '' @ name))
          else Inr (Some (rest ! (index + 1)), take index rest @ drop (index + 2) rest))"

definition takeFlag :: "string list \<Rightarrow> string \<Rightarrow> bool \<times> string list" where
  "takeFlag rest name =
     (case indexOf rest name of
        None \<Rightarrow> (False, rest)
      | Some index \<Rightarrow> (True, take index rest @ drop (index + 1) rest))"

text \<open>Truthiness of a value that is a string or absent: the empty string is falsy.\<close>

definition truthy :: "string option \<Rightarrow> bool" where
  "truthy v = (v \<noteq> None \<and> v \<noteq> Some [])"

definition consumeAppId ::
  "(string \<Rightarrow> error + string) \<Rightarrow> string list \<Rightarrow> bool \<Rightarrow> error + (string option \<times> string list)" where
  "consumeAppId url rest required =
     (case takeOption rest ''--app'' of
        Inl e \<Rightarrow> Inl e
      | Inr (appOptionValue, rest1) \<Rightarrow>
          (case (if truthy appOptionValue then
                   (case parseAppInput url appOptionValue of
                      None \<Rightarrow>
                        Inl (Error ''Invalid --app value. Use an App Store URL, id-prefixed value, or numeric id.'')
                    | Some parsed \<Rightarrow> Inr (Some parsed, rest1))
                 else if length rest1 > 0 then
                   (case parseAppInput url (Some (hd rest1)) of
                      Some parsed \<Rightarrow> Inr (Some parsed, tl rest1)
                    | None \<Rightarrow> Inr (None, rest1))
                 else Inr (None, rest1)) of
             Inl e \<Rightarrow> Inl e
           | Inr (appId, rest2) \<Rightarrow>
               if \<not> truthy appId \<and> required
               then Inl (Error ''Provide an app via --app <APP_ID_OR_URL>'')
               else Inr (appId, rest2)))"

record app_target =
  targetAppIdentifier :: string
  targetAppId :: "string option"
  targetPlannedTrackedAppId :: "string option"

definition consumeTrackedKeywordsAppTarget ::
  "(string \<Rightarrow> error + string) \<Rightarrow> string list \<Rightarrow> error + (app_target \<times> string list)" where
  "consumeTrackedKeywordsAppTarget url rest =
     (case takeOption rest ''--app'' of
        Inl e \<Rightarrow> Inl e
      | Inr (appOptionValue, rest1) \<Rightarrow>
          (let (identifier, rest2) =
                 (if truthy appOptionValue then (Some (trim (stringOrEmpty appOptionValue)), rest1)
                  else if length rest1 > 0 then
                    (let first = trim (stringOrEmpty (Some (hd rest1))) in
                     if first \<noteq> [] \<and> \<not> startsWith first ''--''
                     then (Some first, tl rest1) else (None, rest1))
                  else (None, rest1))
           in if \<not> truthy identifier
              then Inl (Error ''Provide an app via --app <APP_ID_OR_URL_OR_PLANNED_ID>'')
              else case parseAppInput url identifier of
                Some parsedApp \<Rightarrow>
                  Inr (\<lparr>targetAppIdentifier = parsedApp, targetAppId = Some parsedApp,
                        targetPlannedTrackedAppId = None\<rparr>, rest2)
              | None \<Rightarrow>
                 (case normalizePlannedTrackedAppId identifier of
                    Some plannedId \<Rightarrow>
                      Inr (\<lparr>targetAppIdentifier = plannedId, targetAppId = None,
                            targetPlannedTrackedAppId = Some plannedId\<rparr>, rest2)
                  | None \<Rightarrow>
                      Inl (Error ''Invalid --app value. Use an App Store URL/id or a planned app id.''))))"

section \<open>Commands up to their request\<close>

text \<open>
  The stored configuration is read once and passed in. A handler is modelled up to the
  request it hands to the gateway: a result \<open>Inr\<close> is that request, a result \<open>Inl\<close> is an
  error thrown before any request is made. Console output is left out.
\<close>

record config =
  configAccessToken :: "string option"
  configExpiresAt :: "string option"

record request =
  pathName :: string
  httpMethod :: string
  bearer :: "string option"
  body :: "json option"

definition getAccessToken :: "config \<Rightarrow> string option" where
  "getAccessToken cfg =
     (let token = (case configAccessToken cfg of Some s \<Rightarrow> trim s | None \<Rightarrow> []) in
      if token = [] then None else Some token)"

definition requireAuthenticatedAccessToken :: "config \<Rightarrow> error + string" where
  "requireAuthenticatedAccessToken cfg =
     (case getAccessToken cfg of
        None \<Rightarrow> Inl (Error ''Not authenticated. Run `asosuite login` first.'')
      | Some token \<Rightarrow> Inr token)"

fun joinWith :: "string \<Rightarrow> string list \<Rightarrow> string" where
  "joinWith sep [] = []"
| "joinWith sep [x] = x"
| "joinWith sep (x # y # ys) = x @ sep @ joinWith sep (y # ys)"

definition invalidPlatformError :: error where
  "invalidPlatformError =
     Error (''Invalid --platform value. Supported values: '' @ joinWith '', '' SUPPORTED_PLATFORMS)"

definition resolvePlatformArg :: "string option \<Rightarrow> error + string" where
  "resolvePlatformArg v =
     (case (if v = None then Some DEFAULT_PLATFORM else normalizePlatform v) of
        None \<Rightarrow> Inl invalidPlatformError
      | Some platform \<Rightarrow> if platform = [] then Inl invalidPlatformError else Inr platform)"

definition resolveRegionArg :: "string option \<Rightarrow> error + string" where
  "resolveRegionArg v =
     (case (if v = None then Some DEFAULT_REGION else normalizeRegionCode v) of
        None \<Rightarrow> Inl (Error ''Invalid --region value. Use a 2-letter region code.'')
      | Some region \<Rightarrow>
          if region = [] then Inl (Error ''Invalid --region value. Use a 2-letter region code.'')
          else Inr region)"

text \<open>A number in a template string: its decimal digits.\<close>

fun showNat :: "nat \<Rightarrow> string" where
  "showNat n =
     (if n < 10 then [char_of (48 + n)] else showNat (n div 10) @ [char_of (48 + n mod 10)])"

declare showNat.simps [simp del]

definition tooManyKeywordsError :: "nat \<Rightarrow> error" where
  "tooManyKeywordsError cap =
     Error (''At most '' @ showNat cap @ '' keywords are allowed per request'')"

definition runKeywordMetrics ::
  "(string \<Rightarrow> error + string) \<Rightarrow> config \<Rightarrow> string list \<Rightarrow> error + request" where
  "runKeywordMetrics url cfg rest =
     (let (outputJson, rest1) = takeFlag rest ''--json'' in
      case takeOption rest1 ''--region'' of
        Inl e \<Rightarrow> Inl e
      | Inr (regionValue, rest2) \<Rightarrow>
     (case takeOption rest2 ''--platform'' of
        Inl e \<Rightarrow> Inl e
      | Inr (platformValue, rest3) \<Rightarrow>
     (case consumeAppId url rest3 False of
        Inl e \<Rightarrow> Inl e
      | Inr (appId, rest4) \<Rightarrow>
     (let keywords = normalizeKeywordArgs rest4 in
      if length keywords = 0 then Inl (Error ''Provide at least one keyword'')
      else if length keywords > MAX_KEYWORDS then Inl (tooManyKeywordsError MAX_KEYWORDS)
      else case requireAuthenticatedAccessToken cfg of
        Inl e \<Rightarrow> Inl e
      | Inr token \<Rightarrow>
     (let region = toUpperCase (trim (case regionValue of None \<Rightarrow> DEFAULT_REGION | Some r \<Rightarrow> r))
      in case (if platformValue = None then Some DEFAULT_PLATFORM
               else normalizePlatform platformValue) of
        None \<Rightarrow> Inl invalidPlatformError
      | Some platform \<Rightarrow>
          if platform = [] then Inl invalidPlatformError
          else Inr \<lparr>pathName = ''/api/cli/keywords/metrics'', httpMethod = ''POST'',
                    bearer = Some token,
                    body = Some (JObj [(''region'', JStr region),
                                       (''keywords'', JArr (map JStr keywords)),
                                       (''appId'', (case appId of None \<Rightarrow> JNull | Some a \<Rightarrow> JStr a)),
                                       (''platform'', JStr platform)])\<rparr>)))))"

text \<open>
  The request body of the tracked-keywords commands: it names a planned app by its
  planned id and a store app by its app id.
\<close>

definition trackedKeywordsBody :: "app_target \<Rightarrow> string \<Rightarrow> string \<Rightarrow> string list \<Rightarrow> json" where
  "trackedKeywordsBody target platform region keywords =
     JObj [(if \<not> truthy (targetAppId target)
            then (''plannedTrackedAppId'',
                  (case targetPlannedTrackedAppId target of None \<Rightarrow> JNull | Some p \<Rightarrow> JStr p))
            else (''appId'', (case targetAppId target of None \<Rightarrow> JNull | Some a \<Rightarrow> JStr a))),
           (''platform'', JStr platform),
           (''region'', JStr region),
           (''keywords'', JArr (map JStr keywords))]"

text \<open>
  \<open>runTrackedKeywordsAdd\<close> and \<open>runTrackedKeywordsRemove\<close> differ in the HTTP method
  only; \<open>trackedKeywordsRequest\<close> is their common body.
\<close>

definition trackedKeywordsRequest ::
  "string \<Rightarrow> (string \<Rightarrow> error + string) \<Rightarrow> config \<Rightarrow> string list \<Rightarrow> error + request" where
  "trackedKeywordsRequest verb url cfg rest =
     (let (outputJson, rest1) = takeFlag rest ''--json'' in
      case takeOption rest1 ''--platform'' of
        Inl e \<Rightarrow> Inl e
      | Inr (platformValue, rest2) \<Rightarrow>
     (case takeOption rest2 ''--region'' of
        Inl e \<Rightarrow> Inl e
      | Inr (regionValue, rest3) \<Rightarrow>
     (case consumeTrackedKeywordsAppTarget url rest3 of
        Inl e \<Rightarrow> Inl e
      | Inr (target, rest4) \<Rightarrow>
     (let keywords = normalizeKeywordArgs rest4 in
      if length keywords = 0 then Inl (Error ''Provide at least one keyword'')
      else if length keywords > MAX_TRACKED_KEYWORDS_ADD
      then Inl (tooManyKeywordsError MAX_TRACKED_KEYWORDS_ADD)
      else case requireAuthenticatedAccessToken cfg of
        Inl e \<Rightarrow> Inl e
      | Inr token \<Rightarrow>
     (case resolvePlatformArg platformValue of
        Inl e \<Rightarrow> Inl e
      | Inr platform \<Rightarrow>
     (case resolveRegionArg regionValue of
        Inl e \<Rightarrow> Inl e
      | Inr region \<Rightarrow>
     (let isPlannedTarget = \<not> truthy (targetAppId target) in
      Inr \<lparr>pathName = (if isPlannedTarget then ''/api/cli/apps/planned/keywords''
                        else ''/api/cli/apps/keywords''),
           httpMethod = verb,
           bearer = Some token,
           body = Some (trackedKeywordsBody target platform region keywords)\<rparr>)))))))"

definition runTrackedKeywordsAdd ::
  "(string \<Rightarrow> error + string) \<Rightarrow> config \<Rightarrow> string list \<Rightarrow> error + request" where
  "runTrackedKeywordsAdd url cfg rest = trackedKeywordsRequest ''POST'' url cfg rest"

definition runTrackedKeywordsRemove ::
  "(string \<Rightarrow> error + string) \<Rightarrow> config \<Rightarrow> string list \<Rightarrow> error + request" where
  "runTrackedKeywordsRemove url cfg rest = trackedKeywordsRequest ''DELETE'' url cfg rest"

section \<open>HTTP request gateway\<close>

text \<open>
  A response as \<^verbatim>\<open>fetch\<close> delivers it. \<open>bodyText\<close> is \<open>None\<close> when reading the body
  fails; \<open>contentType\<close> is \<open>None\<close> when the header is missing. The platform's JSON parser
  and the origin of a URL are parameters: \<open>jsonParse t\<close> is \<open>None\<close> when
  \<^verbatim>\<open>JSON.parse\<close> throws, \<open>origin u\<close> is the exception when \<^verbatim>\<open>new URL(u)\<close> throws.
  A parsed object lists every key once.
\<close>

record response =
  status :: nat
  statusText :: string
  bodyText :: "string option"
  responseUrl :: string
  contentType :: "string option"

definition ok :: "response \<Rightarrow> bool" where
  "ok r = (200 \<le> status r \<and> status r \<le> 299)"

definition looksLikeHtml :: "string \<Rightarrow> bool" where
  "looksLikeHtml text =
     (let normalized = toLowerCase (trim text) in
      startsWith normalized ''<!doctype html'' \<or> startsWith normalized ''<html''
      \<or> includesStr normalized ''<body'')"

definition getResponseOrigin :: "(string \<Rightarrow> error + string) \<Rightarrow> response \<Rightarrow> string" where
  "getResponseOrigin origin r =
     (case origin (responseUrl r) of Inr parsed \<Rightarrow> parsed | Inl _ \<Rightarrow> API_BASE_URL)"

text \<open>
  \<^verbatim>\<open>parsed && typeof parsed === 'object' && typeof parsed.error === 'string'\<close>: the
  value of the field when the test holds. An array is an object without that field.
\<close>

definition errorField :: "json \<Rightarrow> string option" where
  "errorField parsed =
     (case parsed of
        JObj kvs \<Rightarrow> (case map_of kvs ''error'' of Some (JStr e) \<Rightarrow> Some e | _ \<Rightarrow> None)
      | _ \<Rightarrow> None)"

text \<open>The pair is the message and the payload; the payload \<open>JNull\<close> is \<^verbatim>\<open>null\<close>.\<close>

definition parseErrorResponse ::
  "(string \<Rightarrow> json option) \<Rightarrow> (string \<Rightarrow> error + string) \<Rightarrow> response \<Rightarrow> string \<times> json" where
  "parseErrorResponse jsonParse origin r =
     (let text = (case bodyText r of None \<Rightarrow> [] | Some t \<Rightarrow> t) in
      if text = [] then (showNat (status r) @ '' '' @ statusText r, JNull)
      else case jsonParse text of
        Some parsed \<Rightarrow>
          (case errorField parsed of
             Some e \<Rightarrow> (e, parsed)
           | None \<Rightarrow> (text, parsed))
      | None \<Rightarrow>
          if looksLikeHtml text
          then (''Request failed ('' @ showNat (status r) @ '' '' @ statusText r
                @ ''). Received HTML response from '' @ getResponseOrigin origin r @ ''.'', JNull)
          else (text, JNull))"

datatype api_value = NoContent | JsonValue json | TextValue string

definition requestHeaders :: "request \<Rightarrow> (string \<times> string) list" where
  "requestHeaders req =
     [(''Accept'', ''application/json'')]
     @ (if truthy (bearer req) then [(''Authorization'', ''Bearer '' @ stringOrEmpty (bearer req))]
        else [])
     @ (if body req \<noteq> None \<and> body req \<noteq> Some JNull
        then [(''Content-Type'', ''application/json'')] else [])"

text \<open>
  \<open>apiRequest\<close> on the outcome of the \<^verbatim>\<open>fetch\<close> call: an exception of the transport, or
  a response.
\<close>

definition apiRequest ::
  "(string \<Rightarrow> json option) \<Rightarrow> (string \<Rightarrow> error + string) \<Rightarrow> error + response
   \<Rightarrow> error + api_value" where
  "apiRequest jsonParse origin fetched =
     (case fetched of
        Inl e \<Rightarrow> Inl e
      | Inr r \<Rightarrow>
          if \<not> ok r then
            (let parsedError = parseErrorResponse jsonParse origin r in
             Inl (HttpError (fst parsedError) (status r) (snd parsedError)))
          else if status r = 204 then Inr NoContent
          else
            (let ct = (case contentType r of None \<Rightarrow> [] | Some c \<Rightarrow> c) in
             if includesStr ct ''application/json'' then
               (case bodyText r of
                  None \<Rightarrow> Inl (TypeError ''body unreadable'')
                | Some t \<Rightarrow>
                   (case jsonParse t of
                      None \<Rightarrow> Inl (SyntaxError ''invalid JSON'')
                    | Some v \<Rightarrow> Inr (JsonValue v)))
             else
               (case bodyText r of
                  None \<Rightarrow> Inl (TypeError ''body unreadable'')
                | Some t \<Rightarrow> Inr (TextValue t))))"

section \<open>Device login\<close>

text \<open>
  The bodies of the two login endpoints, decoded: a field is \<open>None\<close> when it is missing or
  null, the codes and the token are strings, the two durations are whole seconds.

  The environment of one login: the outcome of the start request, the clock reading
  \<open>startedAt\<close> (milliseconds) from which the deadline is counted, for the \<open>k\<close>-th token
  request its outcome and the milliseconds that pass before the clock is read again
  beyond the timer's delay, and the outcome of writing the configuration file
  (\<open>None\<close> when it is written). Console output and the launch of the browser do not
  bear on the flow and are left out.
\<close>

record start_response =
  startUserCode :: "string option"
  startDeviceCode :: "string option"
  startPollIntervalSeconds :: "int option"
  startExpiresInSeconds :: "int option"

record token_response =
  tokenAccessToken :: "string option"
  tokenExpiresAt :: "string option"

record login_env =
  startResult :: "error + start_response"
  startedAt :: int
  pollResult :: "nat \<Rightarrow> (error + token_response) \<times> nat"
  saveResult :: "config \<Rightarrow> error option"

datatype event =
    StartRequest
  | TokenRequest int string
  | Sleep int
  | SaveConfig config

text \<open>\<^verbatim>\<open>Number(error?.status || 0)\<close>: only the gateway's error carries a status.\<close>

definition statusOf :: "error \<Rightarrow> nat" where
  "statusOf e = (case e of HttpError m st p \<Rightarrow> st | _ \<Rightarrow> 0)"

text \<open>
  \<^verbatim>\<open>setTimeout(resolve, ms)\<close>: the platform replaces a delay below 1 or above
  2147483647 by 1.
\<close>

definition timerDelay :: "int \<Rightarrow> int" where
  "timerDelay ms = (if ms < 1 \<or> ms > 2147483647 then 1 else ms)"

text \<open>
  The body of the \<^verbatim>\<open>try\<close> block once the token request has its outcome: the events
  it adds, and either a normal return or the exception that reaches the handler.
\<close>

definition tryToken :: "login_env \<Rightarrow> error + token_response \<Rightarrow> event list \<times> (error + unit)" where
  "tryToken env res =
     (case res of
        Inl e \<Rightarrow> ([], Inl e)
      | Inr tokenResponse \<Rightarrow>
          (let accessToken = trim (stringOrEmpty (tokenAccessToken tokenResponse));
               expiresAt = trim (stringOrEmpty (tokenExpiresAt tokenResponse))
           in if accessToken = [] \<or> expiresAt = []
              then ([], Inl (Error ''Server returned an invalid token response''))
              else
                (let cfg = \<lparr>configAccessToken = Some accessToken,
                            configExpiresAt = Some expiresAt\<rparr>
                 in case saveResult env cfg of
                      Some e \<Rightarrow> ([], Inl e)
                    | None \<Rightarrow> ([SaveConfig cfg], Inr ()))))"

function pollLoop ::
  "login_env \<Rightarrow> string \<Rightarrow> int \<Rightarrow> int \<Rightarrow> int \<Rightarrow> nat \<Rightarrow> event list \<times> (error + unit)" where
  "pollLoop env deviceCode pollIntervalSeconds deadline now k =
     (if now < deadline then
        (case tryToken env (fst (pollResult env k)) of
           (evs, Inr u) \<Rightarrow> (TokenRequest now deviceCode # evs, Inr ())
         | (evs, Inl err) \<Rightarrow>
             if statusOf err = 428 then
               (case pollLoop env deviceCode pollIntervalSeconds deadline
                       (now + int (snd (pollResult env k))
                            + timerDelay (pollIntervalSeconds * 1000)) (Suc k) of
                  (later, r) \<Rightarrow>
                    (TokenRequest now deviceCode # evs
                       @ Sleep (pollIntervalSeconds * 1000) # later, r))
             else if statusOf err = 410 then
               (TokenRequest now deviceCode # evs,
                Inl (Error ''Authorization request expired. Run `asosuite login` again.''))
             else if statusOf err = 409 \<or> statusOf err = 400 then
               (TokenRequest now deviceCode # evs,
                Inl (Error ''Authorization request is no longer valid. Run `asosuite login` again.''))
             else (TokenRequest now deviceCode # evs, Inl err))
      else ([], Inl (Error ''Authentication timed out. Run `asosuite login` again.'')))"
  by pat_completeness auto
termination
  by (relation "measure (\<lambda>(env, deviceCode, pollIntervalSeconds, deadline, now, k).
                  nat (deadline - now))")
     (auto simp: timerDelay_def)

declare pollLoop.simps [simp del]

definition runAuthLogin :: "login_env \<Rightarrow> string list \<Rightarrow> event list \<times> (error + unit)" where
  "runAuthLogin env rest =
     (let (noOpen, rest1) = takeFlag rest ''--no-open'' in
      if length rest1 > 0 then ([], Inl (Error (''Unknown arguments: '' @ joinWith '' '' rest1)))
      else case startResult env of
        Inl e \<Rightarrow> ([StartRequest], Inl e)
      | Inr start \<Rightarrow>
          (let userCode = trim (stringOrEmpty (startUserCode start));
               deviceCode = trim (stringOrEmpty (startDeviceCode start));
               pollIntervalSeconds =
                 (case startPollIntervalSeconds start of
                    Some n \<Rightarrow> if n > 0 then n else DEFAULT_POLL_INTERVAL_SECONDS
                  | None \<Rightarrow> DEFAULT_POLL_INTERVAL_SECONDS);
               expiresInSeconds =
                 (case startExpiresInSeconds start of
                    Some n \<Rightarrow> if n > 0 then n else 600
                  | None \<Rightarrow> 600)
           in if deviceCode = [] \<or> userCode = []
              then ([StartRequest], Inl (Error ''Server returned an invalid authentication payload''))
              else
                (let deadline = startedAt env + expiresInSeconds * 1000 in
                 case pollLoop env deviceCode pollIntervalSeconds deadline (startedAt env) 0 of
                   (evs, r) \<Rightarrow> (StartRequest # evs, r))))"

section \<open>The normalizers on a JavaScript value\<close>











section \<open>The keyword list as the specification words it\<close>

text \<open>
  Per item: trim, strip the quote characters at both ends, collapse the runs of white
  space inside to one space, trim again; then drop the empty results, in the order of the
  input and without removing duplicates.
\<close>

definition specKeywordItem :: "string \<Rightarrow> string" where
  "specKeywordItem v = trim (collapseWhiteSpace (stripQuotes (trim v)))"

definition specNormalizeKeywordList :: "string list \<Rightarrow> string list" where
  "specNormalizeKeywordList raw = filter (\<lambda>k. k \<noteq> []) (map specKeywordItem raw)"

section \<open>Sample environments\<close>

text \<open>
  Concrete stand-ins for the platform functions, used where a statement is evaluated at
  an input. \<open>sampleJsonParse\<close> knows one document and rejects every other text (the
  texts it is applied to below are not JSON); \<open>sampleOrigin\<close> knows the address of one
  endpoint.

  \<open>sampleUrl\<close> follows the URL constructor on two kinds of text. A text without a colon
  has no scheme, and the constructor throws. An address \<^verbatim>\<open>https://apps.apple.com\<close>
  followed by a path of letters, digits, underscores, hyphens, slashes and backslashes
  has that path as its pathname, with every backslash turned into a slash. On any other
  text the sample throws, which need not be what the constructor does; no statement
  below applies it to such a text.
\<close>

definition sampleJsonParse :: "string \<Rightarrow> json option" where
  \<open>sampleJsonParse t =
     (if t = ''{"error":"boom"}'' then Some (JObj [(''error'', JStr ''boom'')]) else None)\<close>

definition sampleOrigin :: "string \<Rightarrow> error + string" where
  "sampleOrigin u =
     (if u = ''https://server.asosuite.com/api/cli/subscription''
      then Inr ''https://server.asosuite.com'' else Inl (TypeError ''Invalid URL''))"

definition sampleResponse :: "string option \<Rightarrow> response" where
  "sampleResponse b =
     \<lparr>status = 500, statusText = ''Internal Server Error'', bodyText = b,
      responseUrl = ''https://server.asosuite.com/api/cli/subscription'',
      contentType = Some ''text/html''\<rparr>"

definition plainPathChar :: "char \<Rightarrow> bool" where
  "plainPathChar c = (isWordChar c \<or> c = CHR ''/'' \<or> c = CHR ''-'' \<or> c = CHR 0x5C)"

definition sampleUrl :: "string \<Rightarrow> error + string" where
  "sampleUrl s =
     (if CHR '':'' \<notin> set s then Inl (TypeError ''Invalid URL'')
      else if startsWith s ''https://apps.apple.com/''
              \<and> list_all plainPathChar (drop (length ''https://apps.apple.com'') s)
      then Inr (map (\<lambda>c. if c = CHR 0x5C then CHR ''/'' else c)
                  (drop (length ''https://apps.apple.com'') s))
      else Inl (TypeError ''Invalid URL''))"

definition sampleConfig :: config where
  "sampleConfig = \<lparr>configAccessToken = Some ''secret-token'',
                    configExpiresAt = Some ''2030-01-01T00:00:00.000Z''\<rparr>"

text \<open>
  Sample logins. In \<open>sampleLogin\<close> the start response sets a poll interval of one second
  and no lifetime, the token endpoint answers 428 twice and then succeeds, every request
  takes 50 milliseconds and the configuration file can be written. \<open>sampleLoginDefaults\<close>
  differs in a poll interval of zero, \<open>sampleLoginNoCode\<close> in a device code of blanks.
\<close>

definition sampleToken :: token_response where
  "sampleToken = \<lparr>tokenAccessToken = Some '' secret-token '',
                   tokenExpiresAt = Some ''2030-01-01T00:00:00.000Z''\<rparr>"

definition sampleLogin :: login_env where
  "sampleLogin =
     \<lparr>startResult = Inr \<lparr>startUserCode = Some ''ABCD-1234'', startDeviceCode = Some ''device-1'',
                          startPollIntervalSeconds = Some 1, startExpiresInSeconds = None\<rparr>,
      startedAt = 1000,
      pollResult = (\<lambda>k. if k < 2 then (Inl (HttpError ''Authorization pending'' 428 JNull), 50)
                         else (Inr sampleToken, 50)),
      saveResult = (\<lambda>cfg. None)\<rparr>"

definition sampleLoginDefaults :: login_env where
  "sampleLoginDefaults =
     sampleLogin\<lparr>startResult :=
       Inr \<lparr>startUserCode = Some ''ABCD-1234'', startDeviceCode = Some ''device-1'',
            startPollIntervalSeconds = Some 0, startExpiresInSeconds = None\<rparr>\<rparr>"

definition sampleLoginNoCode :: login_env where
  "sampleLoginNoCode =
     sampleLogin\<lparr>startResult :=
       Inr \<lparr>startUserCode = Some ''ABCD-1234'', startDeviceCode = Some ''  '',
            startPollIntervalSeconds = Some 1, startExpiresInSeconds = Some 900\<rparr>\<rparr>"

section \<open>Properties of the gateway\<close>

lemma showNat_500: "showNat 500 = ''500''"
  by code_simp

lemma sampleResponse_fields:
  "\<not> ok (sampleResponse b)" "bodyText (sampleResponse b) = b"
  "status (sampleResponse b) = 500" "statusText (sampleResponse b) = ''Internal Server Error''"
  "getResponseOrigin sampleOrigin (sampleResponse b) = ''https://server.asosuite.com''"
  by (simp_all add: sampleResponse_def ok_def getResponseOrigin_def sampleOrigin_def)

lemma looksLikeHtml_sample: "looksLikeHtml ''<html><body>Bad gateway</body></html>''"
  by code_simp

lemma looksLikeHtml_plain: "\<not> looksLikeHtml ''upstream timeout''"
  by code_simp

text \<open>
  C2, as the claim states it, fails on an empty body: parsing fails, the body does not
  look like HTML, and the message is the status line, not the (empty) body text.
\<close>

theorem raw_text_counterexample:
  "sampleJsonParse [] = None \<and> \<not> looksLikeHtml []
   \<and> apiRequest sampleJsonParse sampleOrigin (Inr (sampleResponse (Some [])))
       = Inl (HttpError ''500 Internal Server Error'' 500 JNull)
   \<and> ''500 Internal Server Error'' \<noteq> []"
  by (simp add: sampleJsonParse_def looksLikeHtml_def toLowerCase_def trim_def
        apiRequest_def parseErrorResponse_def sampleResponse_def ok_def showNat_500)

text \<open>
  C2, amended. For a response with a non-success status the gateway throws an error
  that carries the response's status. When the body is not empty: if it parses to an
  object with a string field \<open>error\<close>, the message is that field's value and the payload
  is the parsed object; if parsing fails and the body looks like an HTML document, the
  message is the synthesized line with the status, the status text and the origin of the
  response, and the payload is null; in every other case the message is the body's text
  as it is.
\<close>

theorem error_response_message:
  assumes "\<not> ok r"
  shows "\<exists>m p. apiRequest jsonParse origin (Inr r) = Inl (HttpError m (status r) p)
     \<and> (\<forall>text. bodyText r = Some text \<and> text \<noteq> [] \<longrightarrow>
          (\<forall>kvs e. jsonParse text = Some (JObj kvs) \<and> map_of kvs ''error'' = Some (JStr e)
             \<longrightarrow> m = e \<and> p = JObj kvs)
        \<and> (jsonParse text = None \<and> looksLikeHtml text
             \<longrightarrow> m = ''Request failed ('' @ showNat (status r) @ '' '' @ statusText r
                      @ ''). Received HTML response from '' @ getResponseOrigin origin r @ ''.''
                 \<and> p = JNull)
        \<and> (\<not> (\<exists>kvs e. jsonParse text = Some (JObj kvs) \<and> map_of kvs ''error'' = Some (JStr e))
            \<and> \<not> (jsonParse text = None \<and> looksLikeHtml text)
             \<longrightarrow> m = text))"
proof (cases "bodyText r")
  case None
  with assms show ?thesis
    by (simp add: apiRequest_def parseErrorResponse_def)
next
  case body: (Some raw)
  show ?thesis
  proof (cases "raw = []")
    case True
    with assms body show ?thesis
      by (simp add: apiRequest_def parseErrorResponse_def)
  next
    case nonempty: False
    show ?thesis
    proof (cases "jsonParse raw")
      case None
      with assms body nonempty show ?thesis
        by (simp add: apiRequest_def parseErrorResponse_def)
    next
      case (Some parsed)
      show ?thesis
      proof (cases "errorField parsed")
        case None
        then have "\<not> (\<exists>kvs e. parsed = JObj kvs \<and> map_of kvs ''error'' = Some (JStr e))"
          by (auto simp: errorField_def)
        with assms body nonempty Some None show ?thesis
          by (auto simp: apiRequest_def parseErrorResponse_def)
      next
        case (Some e)
        then obtain kvs where "parsed = JObj kvs" "map_of kvs ''error'' = Some (JStr e)"
          by (auto simp: errorField_def split: json.splits option.splits)
        with assms body nonempty \<open>jsonParse raw = Some parsed\<close> Some show ?thesis
          by (simp add: apiRequest_def parseErrorResponse_def)
      qed
    qed
  qed
qed

theorem error_response_message_witness:
  \<open>apiRequest sampleJsonParse sampleOrigin (Inr (sampleResponse (Some ''{"error":"boom"}'')))
     = Inl (HttpError ''boom'' 500 (JObj [(''error'', JStr ''boom'')]))
   \<and> apiRequest sampleJsonParse sampleOrigin
        (Inr (sampleResponse (Some ''<html><body>Bad gateway</body></html>'')))
     = Inl (HttpError
         ''Request failed (500 Internal Server Error). Received HTML response from https://server.asosuite.com.''
         500 JNull)
   \<and> (\<exists>p. apiRequest sampleJsonParse sampleOrigin (Inr (sampleResponse (Some ''upstream timeout'')))
          = Inl (HttpError ''upstream timeout'' 500 p))\<close>
proof (intro conjI)
  let ?t = \<open>''{"error":"boom"}''\<close>
  from error_response_message [where r = "sampleResponse (Some ?t)" and jsonParse = sampleJsonParse
      and origin = sampleOrigin, OF sampleResponse_fields(1)]
  obtain m p where
    "apiRequest sampleJsonParse sampleOrigin (Inr (sampleResponse (Some ?t))) = Inl (HttpError m 500 p)"
    "\<forall>kvs e. sampleJsonParse ?t = Some (JObj kvs) \<and> map_of kvs ''error'' = Some (JStr e)
        \<longrightarrow> m = e \<and> p = JObj kvs"
    by (auto simp: sampleResponse_fields)
  then show "apiRequest sampleJsonParse sampleOrigin (Inr (sampleResponse (Some ?t)))
     = Inl (HttpError ''boom'' 500 (JObj [(''error'', JStr ''boom'')]))"
    by (simp add: sampleJsonParse_def)
next
  let ?t = "''<html><body>Bad gateway</body></html>''"
  from error_response_message [where r = "sampleResponse (Some ?t)" and jsonParse = sampleJsonParse
      and origin = sampleOrigin, OF sampleResponse_fields(1)]
  obtain m p where
    "apiRequest sampleJsonParse sampleOrigin (Inr (sampleResponse (Some ?t))) = Inl (HttpError m 500 p)"
    "sampleJsonParse ?t = None \<and> looksLikeHtml ?t
       \<longrightarrow> m = ''Request failed ('' @ showNat 500 @ '' '' @ ''Internal Server Error''
                @ ''). Received HTML response from '' @ ''https://server.asosuite.com'' @ ''.''
           \<and> p = JNull"
    by (auto simp: sampleResponse_fields)
  then show "apiRequest sampleJsonParse sampleOrigin (Inr (sampleResponse (Some ?t)))
     = Inl (HttpError
         ''Request failed (500 Internal Server Error). Received HTML response from https://server.asosuite.com.''
         500 JNull)"
    using looksLikeHtml_sample by (simp add: sampleJsonParse_def showNat_500)
next
  let ?t = "''upstream timeout''"
  from error_response_message [where r = "sampleResponse (Some ?t)" and jsonParse = sampleJsonParse
      and origin = sampleOrigin, OF sampleResponse_fields(1)]
  obtain m p where
    "apiRequest sampleJsonParse sampleOrigin (Inr (sampleResponse (Some ?t))) = Inl (HttpError m 500 p)"
    "\<not> (\<exists>kvs e. sampleJsonParse ?t = Some (JObj kvs) \<and> map_of kvs ''error'' = Some (JStr e))
      \<and> \<not> (sampleJsonParse ?t = None \<and> looksLikeHtml ?t) \<longrightarrow> m = ?t"
    by (auto simp: sampleResponse_fields)
  then show "\<exists>p. apiRequest sampleJsonParse sampleOrigin (Inr (sampleResponse (Some ?t)))
     = Inl (HttpError ''upstream timeout'' 500 p)"
    using looksLikeHtml_plain by (simp add: sampleJsonParse_def)
qed

text \<open>
  C10. A response with a non-success status whose body is empty, or cannot be read,
  makes the gateway throw an error whose message is the status followed by the status
  text, whose status is the response's and whose payload is null; the body's text is not
  the message.
\<close>

theorem empty_body_status_line:
  assumes "\<not> ok r" and "bodyText r = None \<or> bodyText r = Some []"
  shows "apiRequest jsonParse origin (Inr r)
         = Inl (HttpError (showNat (status r) @ '' '' @ statusText r) (status r) JNull)"
  using assms by (auto simp: apiRequest_def parseErrorResponse_def)

theorem empty_body_status_line_witness:
  "apiRequest (\<lambda>t. Some (JStr t)) (\<lambda>u. Inr u)
     (Inr \<lparr>status = 500, statusText = ''Internal Server Error'', bodyText = None,
            responseUrl = ''https://server.asosuite.com/api/cli/subscription'',
            contentType = None\<rparr>)
   = Inl (HttpError ''500 Internal Server Error'' 500 JNull)"
  using empty_body_status_line
    [of "\<lparr>status = 500, statusText = ''Internal Server Error'', bodyText = None,
            responseUrl = ''https://server.asosuite.com/api/cli/subscription'',
            contentType = None\<rparr>" "\<lambda>t. Some (JStr t)" "\<lambda>u. Inr u"]
  by (simp add: ok_def showNat_500)

section \<open>Properties of the normalizers\<close>

text \<open>
  What the two replacements of \<open>normalizeKeywordArgs\<close> do to an item: \<open>stripQuotes\<close>
  removes quote characters at the two ends only, and \<open>collapseFrom\<close> keeps every
  character that is not white space, in order.
\<close>

lemma normalizeKeywordArgs_refines:
  "normalizeKeywordArgs rest = specNormalizeKeywordList rest"
  by (induction rest)
     (simp_all add: normalizeKeywordArgs_def specNormalizeKeywordList_def specKeywordItem_def
        stringOrEmpty_def)

lemma stripQuotes_split:
  "\<exists>a b. s = a @ stripQuotes s @ b \<and> list_all isQuote a \<and> list_all isQuote b"
proof -
  let ?m = "dropWhile isQuote s"
  have 1: "s = takeWhile isQuote s @ ?m" by simp
  have 2: "?m = rev (dropWhile isQuote (rev ?m)) @ rev (takeWhile isQuote (rev ?m))"
    by (metis rev_append rev_rev_ident takeWhile_dropWhile_id)
  have 3: "list_all isQuote (takeWhile isQuote s)"
    by (simp add: list_all_iff) (meson set_takeWhileD)
  have 4: "list_all isQuote (rev (takeWhile isQuote (rev ?m)))"
    by (simp add: list_all_iff) (meson set_takeWhileD)
  from 1 2 3 4 show ?thesis
    unfolding stripQuotes_def by metis
qed

lemma collapseFrom_letters:
  "filter (\<lambda>c. \<not> isWhiteSpace c) (collapseFrom b s) = filter (\<lambda>c. \<not> isWhiteSpace c) s"
  by (induction b s rule: collapseFrom.induct) (auto simp: isWhiteSpace_def)

text \<open>
  C7. \<open>normalizeKeywordArgs\<close> is the specification's normalization: each item is trimmed,
  stripped of the quotes at its ends, has its runs of white space collapsed to one space
  and is trimmed again; empty results are dropped. The result of a concatenation is the
  concatenation of the results, so the order is kept and no duplicate is removed. The
  specification's example evaluates to its two keywords.
\<close>

theorem keyword_list_normalization:
  \<open>normalizeKeywordArgs rest = specNormalizeKeywordList rest
   \<and> normalizeKeywordArgs (xs @ ys) = normalizeKeywordArgs xs @ normalizeKeywordArgs ys
   \<and> normalizeKeywordArgs [''  "run tracker"  '', '''', ''"a   b"''] = [''run tracker'', ''a b'']\<close>
proof (intro conjI)
  show "normalizeKeywordArgs rest = specNormalizeKeywordList rest"
    by (rule normalizeKeywordArgs_refines)
  show "normalizeKeywordArgs (xs @ ys) = normalizeKeywordArgs xs @ normalizeKeywordArgs ys"
    by (simp add: normalizeKeywordArgs_def)
  show \<open>normalizeKeywordArgs [''  "run tracker"  '', '''', ''"a   b"''] = [''run tracker'', ''a b'']\<close>
    by code_simp
qed

theorem keyword_list_normalization_witness:
  \<open>normalizeKeywordArgs [''"step counter"'', ''step   counter'', ''   '']
     = [''step counter'', ''step counter'']\<close>
proof -
  have "specNormalizeKeywordList [''\"step counter\"'', ''step   counter'', ''   '']
     = [''step counter'', ''step counter'']"
    by code_simp
  with keyword_list_normalization [of "[''\"step counter\"'', ''step   counter'', ''   '']"]
  show ?thesis by simp
qed

section \<open>Properties of app locators\<close>

lemma isDigit_not_space: "isDigit c \<Longrightarrow> \<not> isWhiteSpace c"
  by (auto simp: isDigit_def isWhiteSpace_def)

lemma isDigit_not_letter: "isDigit c \<Longrightarrow> \<not> isLetterI c"
  by (auto simp: isDigit_def isLetterI_def)

lemma isDigit_not_slash: "isDigit c \<Longrightarrow> c \<noteq> CHR ''/''"
  by (auto simp: isDigit_def)

lemma trim_fixed:
  assumes "s \<noteq> []" "\<not> isWhiteSpace (hd s)" "\<not> isWhiteSpace (last s)"
  shows "trim s = s"
proof -
  from assms have "dropWhile isWhiteSpace s = s"
    by (cases s) auto
  moreover from assms have "dropWhile isWhiteSpace (rev s) = rev s"
    by (cases "rev s") (auto simp: hd_rev)
  ultimately show ?thesis by (simp add: trim_def)
qed

lemma takeWhile_all: "list_all P xs \<Longrightarrow> takeWhile P xs = xs"
  by (induction xs) auto

lemma dropWhile_all: "list_all P xs \<Longrightarrow> dropWhile P xs = []"
  by (induction xs) auto

lemma matchPrefixed_Some:
  "matchPrefixed s = Some ds \<Longrightarrow> APP_ID_MIN_LENGTH \<le> length ds \<and> list_all isDigit ds"
  by (auto simp: matchPrefixed_def split: list.splits if_splits)

lemma matchRaw_Some:
  "matchRaw s = Some ds \<Longrightarrow> APP_ID_MIN_LENGTH \<le> length ds \<and> list_all isDigit ds"
  by (auto simp: matchRaw_def split: if_splits)

lemma list_all_takeWhile: "list_all P (takeWhile P xs)"
  by (induction xs) auto

lemma pathIdAt_Some:
  "pathIdAt s = Some ds \<Longrightarrow> APP_ID_MIN_LENGTH \<le> length ds \<and> list_all isDigit ds"
  by (auto simp: pathIdAt_def Let_def list_all_takeWhile split: list.splits if_splits)

lemma matchFromPath_Some:
  "matchFromPath s = Some ds \<Longrightarrow> APP_ID_MIN_LENGTH \<le> length ds \<and> list_all isDigit ds"
  by (induction s) (auto split: option.splits dest: pathIdAt_Some)

lemma embeddedIdAt_Some:
  "embeddedIdAt s = Some ds \<Longrightarrow> APP_ID_MIN_LENGTH \<le> length ds \<and> list_all isDigit ds"
  by (auto simp: embeddedIdAt_def Let_def list_all_takeWhile split: list.splits if_splits)

lemma matchEmbedded_Some:
  "matchEmbedded b s = Some ds \<Longrightarrow> APP_ID_MIN_LENGTH \<le> length ds \<and> list_all isDigit ds"
  by (induction b s rule: matchEmbedded.induct)
     (auto split: option.splits if_splits dest: embeddedIdAt_Some)

lemma parseAppInput_Some:
  assumes "parseAppInput url v = Some a"
  shows "APP_ID_MIN_LENGTH \<le> length a \<and> list_all isDigit a"
  using assms
  by (auto simp: parseAppInput_def Let_def split: if_splits option.splits sum.splits
      dest: matchPrefixed_Some matchRaw_Some matchFromPath_Some matchEmbedded_Some)

lemma parseAppInput_truthy: "parseAppInput url v = Some a \<Longrightarrow> truthy (Some a)"
  by (auto simp: truthy_def APP_ID_MIN_LENGTH_def dest!: parseAppInput_Some)

text \<open>Searching a path: a stretch without a slash holds no match, and neither does a
  segment that is not itself an id.\<close>

lemma pathIdAt_no_slash: "s \<noteq> [] \<Longrightarrow> hd s \<noteq> CHR ''/'' \<Longrightarrow> pathIdAt s = None"
  by (auto simp: pathIdAt_def split: list.splits)

lemma matchFromPath_skip:
  "CHR ''/'' \<notin> set seg \<Longrightarrow> matchFromPath (seg @ r) = matchFromPath r"
  by (induction seg) (auto simp: pathIdAt_no_slash)

lemma takeWhile_digits_segment:
  assumes "CHR ''/'' \<notin> set r" "\<not> list_all isDigit r"
  shows "dropWhile isDigit (r @ CHR ''/'' # t) \<noteq> [] \<and> hd (dropWhile isDigit (r @ CHR ''/'' # t)) \<noteq> CHR ''/''"
  using assms by (induction r) auto

lemma pathIdAt_segment:
  assumes "CHR ''/'' \<notin> set seg" "matchPrefixed seg = None"
  shows "pathIdAt (CHR ''/'' # seg @ CHR ''/'' # t) = None"
proof (cases seg)
  case Nil
  then show ?thesis by (simp add: pathIdAt_def isLetterI_def split: list.splits)
next
  case (Cons i q)
  show ?thesis
  proof (cases q)
    case Nil
    with Cons show ?thesis by (simp add: pathIdAt_def isLetterD_def)
  next
    case (Cons d r)
    note seg = \<open>seg = i # q\<close> Cons
    show ?thesis
    proof (cases "isLetterI i \<and> isLetterD d")
      case False
      with seg show ?thesis by (auto simp: pathIdAt_def)
    next
      case True
      show ?thesis
      proof (cases "list_all isDigit r")
        case all: True
        with assms seg True have "\<not> APP_ID_MIN_LENGTH \<le> length r"
          by (auto simp: matchPrefixed_def)
        moreover from all have "takeWhile isDigit (r @ CHR ''/'' # t) = r"
          by (induction r) (auto simp: isDigit_def)
        ultimately show ?thesis using seg True by (simp add: pathIdAt_def Let_def)
      next
        case False
        with assms seg have "dropWhile isDigit (r @ CHR ''/'' # t) \<noteq> []
            \<and> hd (dropWhile isDigit (r @ CHR ''/'' # t)) \<noteq> CHR ''/''"
          by (intro takeWhile_digits_segment) auto
        then show ?thesis using seg True by (simp add: pathIdAt_def Let_def)
      qed
    qed
  qed
qed

lemma matchFromPath_segment:
  assumes "CHR ''/'' \<notin> set seg" "matchPrefixed seg = None"
  shows "matchFromPath (CHR ''/'' # seg @ CHR ''/'' # t) = matchFromPath (CHR ''/'' # t)"
  using assms by (simp add: pathIdAt_segment matchFromPath_skip)

lemma matchFromPath_last:
  assumes "APP_ID_MIN_LENGTH \<le> length ds" "list_all isDigit ds"
  shows "matchFromPath (''/id'' @ ds) = Some ds"
proof -
  from assms(2) have tw: "takeWhile isDigit ds = ds" by (rule takeWhile_all)
  have "pathIdAt (''/id'' @ ds) = Some ds"
    using assms(2)
    by (simp add: pathIdAt_def Let_def isLetterI_def isLetterD_def tw assms(1) list_all_iff)
  then show ?thesis by simp
qed

lemma matchFromPath_store_path:
  assumes "CHR ''/'' \<notin> set region" "matchPrefixed region = None"
    and "CHR ''/'' \<notin> set slug" "matchPrefixed slug = None"
    and "APP_ID_MIN_LENGTH \<le> length ds" "list_all isDigit ds"
  shows "matchFromPath (''/'' @ region @ ''/app/'' @ slug @ ''/id'' @ ds) = Some ds"
proof -
  have app: "CHR ''/'' \<notin> set ''app''" "matchPrefixed ''app'' = None"
    by (simp_all add: matchPrefixed_def isLetterI_def)
  have "matchFromPath (''/'' @ region @ ''/app/'' @ slug @ ''/id'' @ ds)
        = matchFromPath (CHR ''/'' # region @ CHR ''/'' # (''app/'' @ slug @ ''/id'' @ ds))"
    by simp
  also have "\<dots> = matchFromPath (CHR ''/'' # (''app/'' @ slug @ ''/id'' @ ds))"
    by (rule matchFromPath_segment [OF assms(1,2)])
  also have "\<dots> = matchFromPath (CHR ''/'' # ''app'' @ CHR ''/'' # (slug @ ''/id'' @ ds))"
    by simp
  also have "\<dots> = matchFromPath (CHR ''/'' # (slug @ ''/id'' @ ds))"
    by (rule matchFromPath_segment [OF app])
  also have "\<dots> = matchFromPath (CHR ''/'' # slug @ CHR ''/'' # (''id'' @ ds))"
    by simp
  also have "\<dots> = matchFromPath (CHR ''/'' # (''id'' @ ds))"
    by (rule matchFromPath_segment [OF assms(3,4)])
  also have "\<dots> = matchFromPath (''/id'' @ ds)"
    by simp
  also have "\<dots> = Some ds"
    using assms(5,6) by (rule matchFromPath_last)
  finally show ?thesis .
qed

lemma parseAppInput_prefixed:
  assumes "trim s = i # d # ds" "isLetterI i" "isLetterD d" "6 \<le> length ds" "list_all isDigit ds"
  shows "parseAppInput url (Some s) = Some ds"
  using assms
  by (simp add: parseAppInput_def stringOrEmpty_def matchPrefixed_def APP_ID_MIN_LENGTH_def)

lemma parseAppInput_raw:
  assumes "6 \<le> length (trim s)" "list_all isDigit (trim s)"
  shows "parseAppInput url (Some s) = Some (trim s)"
proof -
  from assms obtain c cs where t: "trim s = c # cs" "isDigit c"
    by (cases "trim s") auto
  then have "matchPrefixed (trim s) = None"
    by (auto simp: matchPrefixed_def isDigit_not_letter split: list.splits)
  with assms t show ?thesis
    by (simp add: parseAppInput_def stringOrEmpty_def matchRaw_def APP_ID_MIN_LENGTH_def)
qed

lemma parseAppInput_store_url:
  assumes s: "s = ''https://apps.apple.com/'' @ region @ ''/app/'' @ slug @ ''/id'' @ ds"
    and u: "url s = Inr (''/'' @ region @ ''/app/'' @ slug @ ''/id'' @ ds)"
    and seg: "CHR ''/'' \<notin> set region" "matchPrefixed region = None"
             "CHR ''/'' \<notin> set slug" "matchPrefixed slug = None"
    and ds: "6 \<le> length ds" "list_all isDigit ds"
  shows "parseAppInput url (Some s) = Some ds"
proof -
  from ds have ne: "ds \<noteq> []" by auto
  with ds have "isDigit (last ds)" by (simp add: list_all_iff)
  then have "\<not> isWhiteSpace (last ds)" by (rule isDigit_not_space)
  with ne s have "\<not> isWhiteSpace (last s)" by simp
  moreover from s have "s \<noteq> []" "\<not> isWhiteSpace (hd s)"
    by (simp_all add: isWhiteSpace_def)
  ultimately have t: "trim s = s" by (intro trim_fixed)
  from s have a: "matchPrefixed s = None"
    by (simp add: matchPrefixed_def isLetterI_def)
  from s have b: "matchRaw s = None"
    by (simp add: matchRaw_def isDigit_def)
  from seg ds have c: "matchFromPath (''/'' @ region @ ''/app/'' @ slug @ ''/id'' @ ds) = Some ds"
    by (intro matchFromPath_store_path) (simp_all add: APP_ID_MIN_LENGTH_def)
  from s have "s \<noteq> []" by simp
  with t a b c u show ?thesis
    by (simp add: parseAppInput_def stringOrEmpty_def)
qed

text \<open>
  C4, as the claim states it, fails on three App Store addresses. When the slug is itself
  \<^verbatim>\<open>id\<close> followed by six digits, the first such segment of the path wins, not the
  last. When the slug holds a backslash, the URL parser turns it into a slash, the
  pathname gains a segment, and that segment wins. When the final segment has fewer than
  six digits, the result is null.
\<close>

theorem app_store_url_counterexample:
  "sampleUrl ''https://apps.apple.com/us/app/id123456/id654321'' = Inr ''/us/app/id123456/id654321''
   \<and> parseAppInput sampleUrl (Some ''https://apps.apple.com/us/app/id123456/id654321'')
       = Some ''123456''
   \<and> sampleUrl (''https://apps.apple.com/us/app/a'' @ [CHR 0x5C] @ ''id999999/id123456'')
       = Inr ''/us/app/a/id999999/id123456''
   \<and> parseAppInput sampleUrl
         (Some (''https://apps.apple.com/us/app/a'' @ [CHR 0x5C] @ ''id999999/id123456''))
       = Some ''999999''
   \<and> sampleUrl ''https://apps.apple.com/us/app/chatgpt/id12345'' = Inr ''/us/app/chatgpt/id12345''
   \<and> parseAppInput sampleUrl (Some ''https://apps.apple.com/us/app/chatgpt/id12345'') = None"
  by code_simp

text \<open>
  C4, amended. When the trimmed input is \<^verbatim>\<open>id\<close> in any casing followed by six or more
  digits, or is six or more digits, \<open>parseAppInput\<close> returns exactly that digit run. For
  an address \<^verbatim>\<open>https://apps.apple.com/<region>/app/<slug>/id<digits>\<close> it returns
  \<^verbatim>\<open><digits>\<close> when the URL parser gives the pathname
  \<^verbatim>\<open>/<region>/app/<slug>/id<digits>\<close> unchanged, the digits are six or more, and
  neither the region nor the slug contains a slash or is itself \<^verbatim>\<open>id\<close> in any casing
  followed by six or more digits.
\<close>

theorem parseAppInput_locators:
  "(\<forall>i d. trim s = i # d # ds \<and> isLetterI i \<and> isLetterD d \<and> 6 \<le> length ds
        \<and> list_all isDigit ds \<longrightarrow> parseAppInput url (Some s) = Some ds)
   \<and> (6 \<le> length (trim s) \<and> list_all isDigit (trim s)
        \<longrightarrow> parseAppInput url (Some s) = Some (trim s))
   \<and> (s = ''https://apps.apple.com/'' @ region @ ''/app/'' @ slug @ ''/id'' @ ds
        \<and> url s = Inr (''/'' @ region @ ''/app/'' @ slug @ ''/id'' @ ds)
        \<and> CHR ''/'' \<notin> set region \<and> matchPrefixed region = None
        \<and> CHR ''/'' \<notin> set slug \<and> matchPrefixed slug = None
        \<and> 6 \<le> length ds \<and> list_all isDigit ds
        \<longrightarrow> parseAppInput url (Some s) = Some ds)"
  using parseAppInput_prefixed [of s _ _ ds url] parseAppInput_raw [of s url]
    parseAppInput_store_url [of s region slug ds url]
  by blast

theorem parseAppInput_locators_witness:
  "parseAppInput sampleUrl (Some '' ID6448311069 '') = Some ''6448311069''
   \<and> parseAppInput sampleUrl (Some ''6448311069'') = Some ''6448311069''
   \<and> parseAppInput sampleUrl (Some ''https://apps.apple.com/us/app/chatgpt/id6448311069'')
       = Some ''6448311069''"
proof (intro conjI)
  have t: "trim '' ID6448311069 '' = CHR ''I'' # CHR ''D'' # ''6448311069''"
    by code_simp
  have d: "list_all isDigit ''6448311069''"
    by code_simp
  from parseAppInput_locators [of "'' ID6448311069 ''" "''6448311069''" sampleUrl]
  have "trim '' ID6448311069 '' = CHR ''I'' # CHR ''D'' # ''6448311069'' \<and> isLetterI CHR ''I''
        \<and> isLetterD CHR ''D'' \<and> 6 \<le> length ''6448311069'' \<and> list_all isDigit ''6448311069''
        \<longrightarrow> parseAppInput sampleUrl (Some '' ID6448311069 '') = Some ''6448311069''"
    by blast
  with t d show "parseAppInput sampleUrl (Some '' ID6448311069 '') = Some ''6448311069''"
    by (simp add: isLetterI_def isLetterD_def)
next
  have t: "trim ''6448311069'' = ''6448311069''"
    by code_simp
  have d: "list_all isDigit ''6448311069''"
    by code_simp
  from parseAppInput_locators [of "''6448311069''" _ sampleUrl] t d
  show "parseAppInput sampleUrl (Some ''6448311069'') = Some ''6448311069''"
    by simp
next
  let ?s = "''https://apps.apple.com/us/app/chatgpt/id6448311069''"
  have u: "sampleUrl ?s = Inr (''/'' @ ''us'' @ ''/app/'' @ ''chatgpt'' @ ''/id'' @ ''6448311069'')"
    by code_simp
  have d: "list_all isDigit ''6448311069''"
    by code_simp
  have m: "matchPrefixed ''us'' = None" "matchPrefixed ''chatgpt'' = None"
    by code_simp+
  from parseAppInput_locators [of ?s "''6448311069''" sampleUrl "''us''" "''chatgpt''"] u d m
  show "parseAppInput sampleUrl (Some ?s) = Some ''6448311069''"
    by simp
qed

section \<open>Properties of the commands\<close>

lemma indexOf_absent: "name \<notin> set rest \<Longrightarrow> indexOf rest name = None"
  by (induction rest) auto

lemma takeOption_absent: "name \<notin> set rest \<Longrightarrow> takeOption rest name = Inr (None, rest)"
  by (simp add: takeOption_def indexOf_absent)

lemma takeFlag_absent: "name \<notin> set rest \<Longrightarrow> takeFlag rest name = (False, rest)"
  by (simp add: takeFlag_def indexOf_absent)

lemma consumeAppId_no_option:
  assumes "''--app'' \<notin> set rest"
  shows "consumeAppId url rest required =
     (case rest of
        [] \<Rightarrow> if required then Inl (Error ''Provide an app via --app <APP_ID_OR_URL>'')
              else Inr (None, [])
      | first # others \<Rightarrow>
          (case parseAppInput url (Some first) of
             Some a \<Rightarrow> Inr (Some a, others)
           | None \<Rightarrow> if required then Inl (Error ''Provide an app via --app <APP_ID_OR_URL>'')
                     else Inr (None, first # others)))"
proof (cases rest)
  case Nil
  then show ?thesis
    by (simp add: consumeAppId_def takeOption_def truthy_def)
next
  case (Cons first others)
  show ?thesis
  proof (cases "parseAppInput url (Some first)")
    case None
    with Cons assms show ?thesis
      by (simp add: consumeAppId_def takeOption_absent truthy_def)
  next
    case (Some a)
    then have "truthy (Some a)" by (rule parseAppInput_truthy)
    with Some Cons assms show ?thesis
      by (simp add: consumeAppId_def takeOption_absent) (simp add: truthy_def)
  qed
qed

lemma showNat_50: "showNat 50 = ''50''"
  by code_simp

lemma showNat_200: "showNat 200 = ''200''"
  by code_simp

lemma resolvePlatformArg_inline:
  "resolvePlatformArg pv = Inr platform \<Longrightarrow>
   (if pv = None then Some DEFAULT_PLATFORM else normalizePlatform pv) = Some platform
   \<and> platform \<noteq> []"
  by (auto simp: resolvePlatformArg_def split: option.splits if_splits)

lemma keywordMetrics_count:
  assumes "takeFlag rest ''--json'' = (j, r1)"
    and "takeOption r1 ''--region'' = Inr (rv, r2)"
    and "takeOption r2 ''--platform'' = Inr (pv, r3)"
    and "consumeAppId url r3 False = Inr (a, r4)"
  shows "(length (normalizeKeywordArgs r4) = 0
            \<longrightarrow> runKeywordMetrics url cfg rest = Inl (Error ''Provide at least one keyword''))
     \<and> (51 \<le> length (normalizeKeywordArgs r4)
            \<longrightarrow> runKeywordMetrics url cfg rest
                = Inl (Error ''At most 50 keywords are allowed per request''))
     \<and> (0 < length (normalizeKeywordArgs r4) \<and> length (normalizeKeywordArgs r4) \<le> 50
          \<and> getAccessToken cfg = Some token \<and> resolvePlatformArg pv = Inr platform
            \<longrightarrow> runKeywordMetrics url cfg rest =
                Inr \<lparr>pathName = ''/api/cli/keywords/metrics'', httpMethod = ''POST'',
                     bearer = Some token,
                     body = Some (JObj
                       [(''region'', JStr (toUpperCase (trim (case rv of None \<Rightarrow> ''US'' | Some r \<Rightarrow> r)))),
                        (''keywords'', JArr (map JStr (normalizeKeywordArgs r4))),
                        (''appId'', (case a of None \<Rightarrow> JNull | Some i \<Rightarrow> JStr i)),
                        (''platform'', JStr platform)])\<rparr>)"
proof (intro conjI impI)
  assume "length (normalizeKeywordArgs r4) = 0"
  with assms show "runKeywordMetrics url cfg rest = Inl (Error ''Provide at least one keyword'')"
    by (simp add: runKeywordMetrics_def)
next
  assume h: "51 \<le> length (normalizeKeywordArgs r4)"
  then have "normalizeKeywordArgs r4 \<noteq> []" by auto
  with assms h show "runKeywordMetrics url cfg rest
      = Inl (Error ''At most 50 keywords are allowed per request'')"
    by (simp add: runKeywordMetrics_def Let_def MAX_KEYWORDS_def tooManyKeywordsError_def
          showNat_50)
next
  assume h: "0 < length (normalizeKeywordArgs r4) \<and> length (normalizeKeywordArgs r4) \<le> 50
          \<and> getAccessToken cfg = Some token \<and> resolvePlatformArg pv = Inr platform"
  then have "(if pv = None then Some DEFAULT_PLATFORM else normalizePlatform pv) = Some platform"
    "platform \<noteq> []"
    using resolvePlatformArg_inline [of pv platform] by simp_all
  with assms h show "runKeywordMetrics url cfg rest =
                Inr \<lparr>pathName = ''/api/cli/keywords/metrics'', httpMethod = ''POST'',
                     bearer = Some token,
                     body = Some (JObj
                       [(''region'', JStr (toUpperCase (trim (case rv of None \<Rightarrow> ''US'' | Some r \<Rightarrow> r)))),
                        (''keywords'', JArr (map JStr (normalizeKeywordArgs r4))),
                        (''appId'', (case a of None \<Rightarrow> JNull | Some i \<Rightarrow> JStr i)),
                        (''platform'', JStr platform)])\<rparr>"
    by (cases rv)
       (simp_all add: runKeywordMetrics_def Let_def MAX_KEYWORDS_def DEFAULT_REGION_def
          requireAuthenticatedAccessToken_def)
qed

lemma default_args:
  "resolvePlatformArg None = Inr ''iphone''" "resolveRegionArg None = Inr ''US''"
  by code_simp+


lemma sample_token: "getAccessToken sampleConfig = Some ''secret-token''"
  by code_simp




text \<open>
  C3. The keywords command does not validate its region: the value \<^verbatim>\<open>USA\<close>, which
  \<open>normalizeRegionCode\<close> rejects and the tracked-keywords commands refuse, is trimmed,
  upper-cased and sent in the request body. A two-letter value is upper-cased.
\<close>

theorem keywords_region_unchecked:
  "normalizeRegionCode (Some ''USA'') = None
   \<and> runKeywordMetrics sampleUrl sampleConfig [''--region'', ''USA'', ''step counter'']
     = Inr \<lparr>pathName = ''/api/cli/keywords/metrics'', httpMethod = ''POST'',
            bearer = Some ''secret-token'',
            body = Some (JObj [(''region'', JStr ''USA''),
                               (''keywords'', JArr [JStr ''step counter'']),
                               (''appId'', JNull),
                               (''platform'', JStr ''iphone'')])\<rparr>
   \<and> runTrackedKeywordsAdd sampleUrl sampleConfig
        [''--region'', ''USA'', ''--app'', ''6448311069'', ''step counter'']
     = Inl (Error ''Invalid --region value. Use a 2-letter region code.'')
   \<and> runKeywordMetrics sampleUrl sampleConfig [''--region'', ''se'', ''step counter'']
     = Inr \<lparr>pathName = ''/api/cli/keywords/metrics'', httpMethod = ''POST'',
            bearer = Some ''secret-token'',
            body = Some (JObj [(''region'', JStr ''SE''),
                               (''keywords'', JArr [JStr ''step counter'']),
                               (''appId'', JNull),
                               (''platform'', JStr ''iphone'')])\<rparr>"
  by code_simp

section \<open>The normalizers never throw\<close>















section \<open>Keyword caps\<close>

lemma trackedKeywords_count:
  assumes "takeFlag rest ''--json'' = (j, r1)"
    and "takeOption r1 ''--platform'' = Inr (pv, r2)"
    and "takeOption r2 ''--region'' = Inr (rv, r3)"
    and "consumeTrackedKeywordsAppTarget url r3 = Inr (target, r4)"
  shows "(length (normalizeKeywordArgs r4) = 0
            \<longrightarrow> trackedKeywordsRequest verb url cfg rest = Inl (Error ''Provide at least one keyword''))
     \<and> (201 \<le> length (normalizeKeywordArgs r4)
            \<longrightarrow> trackedKeywordsRequest verb url cfg rest
                = Inl (Error ''At most 200 keywords are allowed per request''))
     \<and> (0 < length (normalizeKeywordArgs r4) \<and> length (normalizeKeywordArgs r4) \<le> 200
          \<and> getAccessToken cfg = Some token \<and> resolvePlatformArg pv = Inr platform
          \<and> resolveRegionArg rv = Inr region
            \<longrightarrow> trackedKeywordsRequest verb url cfg rest =
                Inr \<lparr>pathName = (if \<not> truthy (targetAppId target)
                                  then ''/api/cli/apps/planned/keywords''
                                  else ''/api/cli/apps/keywords''),
                     httpMethod = verb, bearer = Some token,
                     body = Some (trackedKeywordsBody target platform region
                                    (normalizeKeywordArgs r4))\<rparr>)"
proof (intro conjI impI)
  assume "length (normalizeKeywordArgs r4) = 0"
  with assms show "trackedKeywordsRequest verb url cfg rest
      = Inl (Error ''Provide at least one keyword'')"
    by (simp add: trackedKeywordsRequest_def)
next
  assume h: "201 \<le> length (normalizeKeywordArgs r4)"
  then have "normalizeKeywordArgs r4 \<noteq> []" by auto
  with assms h show "trackedKeywordsRequest verb url cfg rest
      = Inl (Error ''At most 200 keywords are allowed per request'')"
    by (simp add: trackedKeywordsRequest_def Let_def MAX_TRACKED_KEYWORDS_ADD_def
          tooManyKeywordsError_def showNat_200)
next
  assume h: "0 < length (normalizeKeywordArgs r4) \<and> length (normalizeKeywordArgs r4) \<le> 200
          \<and> getAccessToken cfg = Some token \<and> resolvePlatformArg pv = Inr platform
          \<and> resolveRegionArg rv = Inr region"
  with assms show "trackedKeywordsRequest verb url cfg rest =
                Inr \<lparr>pathName = (if \<not> truthy (targetAppId target)
                                  then ''/api/cli/apps/planned/keywords''
                                  else ''/api/cli/apps/keywords''),
                     httpMethod = verb, bearer = Some token,
                     body = Some (trackedKeywordsBody target platform region
                                    (normalizeKeywordArgs r4))\<rparr>"
    by (simp add: trackedKeywordsRequest_def Let_def MAX_TRACKED_KEYWORDS_ADD_def
          requireAuthenticatedAccessToken_def)
qed

lemma kw_not_flag:
  "''--json'' \<notin> set (replicate n ''kw'')" "''--region'' \<notin> set (replicate n ''kw'')"
  "''--platform'' \<notin> set (replicate n ''kw'')" "''--app'' \<notin> set (replicate n ''kw'')"
  by auto

lemma kw_normal: "normalizeKeywordArgs (replicate n ''kw'') = replicate n ''kw''"
proof -
  have "trim (collapseWhiteSpace (stripQuotes (trim ''kw''))) = ''kw''"
    by code_simp
  then show ?thesis
    by (induction n) (simp_all add: normalizeKeywordArgs_def stringOrEmpty_def)
qed

lemma kw_not_app: "parseAppInput sampleUrl (Some ''kw'') = None"
  by code_simp

lemma kw_consumeAppId:
  "consumeAppId sampleUrl (replicate n ''kw'') False = Inr (None, replicate n ''kw'')"
  by (cases n) (simp_all add: consumeAppId_no_option kw_not_app)

lemma planned_target:
  "consumeTrackedKeywordsAppTarget sampleUrl (''my-next-app'' # replicate n ''kw'')
   = Inr (\<lparr>targetAppIdentifier = ''my-next-app'', targetAppId = None,
           targetPlannedTrackedAppId = Some ''my-next-app''\<rparr>, replicate n ''kw'')"
proof -
  have "trim ''my-next-app'' = ''my-next-app''"
    "parseAppInput sampleUrl (Some ''my-next-app'') = None"
    "normalizePlannedTrackedAppId (Some ''my-next-app'') = Some ''my-next-app''"
    by code_simp+
  then show ?thesis
    by (simp add: consumeTrackedKeywordsAppTarget_def takeOption_absent truthy_def
          stringOrEmpty_def)
qed

lemma trackedKeywords_add_remove:
  assumes h: "takeFlag rest ''--json'' = (j, t1)" "takeOption t1 ''--platform'' = Inr (pv, t2)"
    "takeOption t2 ''--region'' = Inr (rv, t3)"
    "consumeTrackedKeywordsAppTarget url t3 = Inr (target, t4)"
  shows "(length (normalizeKeywordArgs t4) = 0
            \<longrightarrow> runTrackedKeywordsAdd url cfg rest = Inl (Error ''Provide at least one keyword'')
              \<and> runTrackedKeywordsRemove url cfg rest = Inl (Error ''Provide at least one keyword''))
     \<and> (201 \<le> length (normalizeKeywordArgs t4)
            \<longrightarrow> runTrackedKeywordsAdd url cfg rest
                  = Inl (Error ''At most 200 keywords are allowed per request'')
              \<and> runTrackedKeywordsRemove url cfg rest
                  = Inl (Error ''At most 200 keywords are allowed per request''))
     \<and> (0 < length (normalizeKeywordArgs t4) \<and> length (normalizeKeywordArgs t4) \<le> 200
          \<and> getAccessToken cfg = Some token \<and> resolvePlatformArg pv = Inr platform
          \<and> resolveRegionArg rv = Inr region
            \<longrightarrow> runTrackedKeywordsAdd url cfg rest =
                  Inr \<lparr>pathName = (if \<not> truthy (targetAppId target)
                                    then ''/api/cli/apps/planned/keywords''
                                    else ''/api/cli/apps/keywords''),
                       httpMethod = ''POST'', bearer = Some token,
                       body = Some (trackedKeywordsBody target platform region
                                      (normalizeKeywordArgs t4))\<rparr>
              \<and> runTrackedKeywordsRemove url cfg rest =
                  Inr \<lparr>pathName = (if \<not> truthy (targetAppId target)
                                    then ''/api/cli/apps/planned/keywords''
                                    else ''/api/cli/apps/keywords''),
                       httpMethod = ''DELETE'', bearer = Some token,
                       body = Some (trackedKeywordsBody target platform region
                                      (normalizeKeywordArgs t4))\<rparr>)"
proof -
  note add = trackedKeywords_count [OF h, of "''POST''" cfg token platform region,
      folded runTrackedKeywordsAdd_def]
  note remove = trackedKeywords_count [OF h, of "''DELETE''" cfg token platform region,
      folded runTrackedKeywordsRemove_def]
  show ?thesis
  proof (intro conjI impI)
    assume a: "length (normalizeKeywordArgs t4) = 0"
    from add a show "runTrackedKeywordsAdd url cfg rest = Inl (Error ''Provide at least one keyword'')"
      by (elim conjE) (erule (1) mp)
    from remove a show "runTrackedKeywordsRemove url cfg rest = Inl (Error ''Provide at least one keyword'')"
      by (elim conjE) (erule (1) mp)
  next
    assume a: "201 \<le> length (normalizeKeywordArgs t4)"
    from add [THEN conjunct2, THEN conjunct1] a
    show "runTrackedKeywordsAdd url cfg rest
          = Inl (Error ''At most 200 keywords are allowed per request'')"
      by (rule mp)
    from remove [THEN conjunct2, THEN conjunct1] a
    show "runTrackedKeywordsRemove url cfg rest
          = Inl (Error ''At most 200 keywords are allowed per request'')"
      by (rule mp)
  next
    assume a: "0 < length (normalizeKeywordArgs t4) \<and> length (normalizeKeywordArgs t4) \<le> 200
          \<and> getAccessToken cfg = Some token \<and> resolvePlatformArg pv = Inr platform
          \<and> resolveRegionArg rv = Inr region"
    from add [THEN conjunct2, THEN conjunct2] a
    show "runTrackedKeywordsAdd url cfg rest =
                  Inr \<lparr>pathName = (if \<not> truthy (targetAppId target)
                                    then ''/api/cli/apps/planned/keywords''
                                    else ''/api/cli/apps/keywords''),
                       httpMethod = ''POST'', bearer = Some token,
                       body = Some (trackedKeywordsBody target platform region
                                      (normalizeKeywordArgs t4))\<rparr>"
      by (rule mp)
    from remove [THEN conjunct2, THEN conjunct2] a
    show "runTrackedKeywordsRemove url cfg rest =
                  Inr \<lparr>pathName = (if \<not> truthy (targetAppId target)
                                    then ''/api/cli/apps/planned/keywords''
                                    else ''/api/cli/apps/keywords''),
                       httpMethod = ''DELETE'', bearer = Some token,
                       body = Some (trackedKeywordsBody target platform region
                                      (normalizeKeywordArgs t4))\<rparr>"
      by (rule mp)
  qed
qed

text \<open>
  C6. Once the options and the app target of the keywords command have been taken from
  the arguments, the normalized keyword list decides: an empty list and a list of 51 or
  more keywords end in an error, so no request is made; a list of 1 to 50 keywords, 50
  included, passes, and with an access token and a valid platform the request is made
  with exactly these keywords. For tracked-keywords add and remove the same holds with
  200 in place of 50.
\<close>

theorem keyword_count_caps:
  "(takeFlag rest ''--json'' = (j, r1) \<and> takeOption r1 ''--region'' = Inr (rv, r2)
    \<and> takeOption r2 ''--platform'' = Inr (pv, r3) \<and> consumeAppId url r3 False = Inr (a, r4)
    \<longrightarrow>
       (length (normalizeKeywordArgs r4) = 0
            \<longrightarrow> runKeywordMetrics url cfg rest = Inl (Error ''Provide at least one keyword''))
     \<and> (51 \<le> length (normalizeKeywordArgs r4)
            \<longrightarrow> runKeywordMetrics url cfg rest
                = Inl (Error ''At most 50 keywords are allowed per request''))
     \<and> (0 < length (normalizeKeywordArgs r4) \<and> length (normalizeKeywordArgs r4) \<le> 50
          \<and> getAccessToken cfg = Some token \<and> resolvePlatformArg pv = Inr platform
            \<longrightarrow> runKeywordMetrics url cfg rest =
                Inr \<lparr>pathName = ''/api/cli/keywords/metrics'', httpMethod = ''POST'',
                     bearer = Some token,
                     body = Some (JObj
                       [(''region'', JStr (toUpperCase (trim (case rv of None \<Rightarrow> ''US'' | Some r \<Rightarrow> r)))),
                        (''keywords'', JArr (map JStr (normalizeKeywordArgs r4))),
                        (''appId'', (case a of None \<Rightarrow> JNull | Some i \<Rightarrow> JStr i)),
                        (''platform'', JStr platform)])\<rparr>))
   \<and> (takeFlag rest ''--json'' = (j, t1) \<and> takeOption t1 ''--platform'' = Inr (pv', t2)
    \<and> takeOption t2 ''--region'' = Inr (rv', t3)
    \<and> consumeTrackedKeywordsAppTarget url t3 = Inr (target, t4)
    \<longrightarrow>
       (length (normalizeKeywordArgs t4) = 0
            \<longrightarrow> runTrackedKeywordsAdd url cfg rest = Inl (Error ''Provide at least one keyword'')
              \<and> runTrackedKeywordsRemove url cfg rest = Inl (Error ''Provide at least one keyword''))
     \<and> (201 \<le> length (normalizeKeywordArgs t4)
            \<longrightarrow> runTrackedKeywordsAdd url cfg rest
                  = Inl (Error ''At most 200 keywords are allowed per request'')
              \<and> runTrackedKeywordsRemove url cfg rest
                  = Inl (Error ''At most 200 keywords are allowed per request''))
     \<and> (0 < length (normalizeKeywordArgs t4) \<and> length (normalizeKeywordArgs t4) \<le> 200
          \<and> getAccessToken cfg = Some token \<and> resolvePlatformArg pv' = Inr platform'
          \<and> resolveRegionArg rv' = Inr region
            \<longrightarrow> runTrackedKeywordsAdd url cfg rest =
                  Inr \<lparr>pathName = (if \<not> truthy (targetAppId target)
                                    then ''/api/cli/apps/planned/keywords''
                                    else ''/api/cli/apps/keywords''),
                       httpMethod = ''POST'', bearer = Some token,
                       body = Some (trackedKeywordsBody target platform' region
                                      (normalizeKeywordArgs t4))\<rparr>
              \<and> runTrackedKeywordsRemove url cfg rest =
                  Inr \<lparr>pathName = (if \<not> truthy (targetAppId target)
                                    then ''/api/cli/apps/planned/keywords''
                                    else ''/api/cli/apps/keywords''),
                       httpMethod = ''DELETE'', bearer = Some token,
                       body = Some (trackedKeywordsBody target platform' region
                                      (normalizeKeywordArgs t4))\<rparr>))"
  apply (rule conjI)
  subgoal by (rule impI, elim conjE, rule keywordMetrics_count; assumption)
  subgoal by (rule impI, elim conjE, rule trackedKeywords_add_remove; assumption)
  done

theorem keyword_count_caps_witness:
  "runKeywordMetrics sampleUrl sampleConfig (replicate 50 ''kw'')
     = Inr \<lparr>pathName = ''/api/cli/keywords/metrics'', httpMethod = ''POST'',
            bearer = Some ''secret-token'',
            body = Some (JObj [(''region'', JStr ''US''),
                               (''keywords'', JArr (map JStr (replicate 50 ''kw''))),
                               (''appId'', JNull),
                               (''platform'', JStr ''iphone'')])\<rparr>
   \<and> runKeywordMetrics sampleUrl sampleConfig (replicate 51 ''kw'')
     = Inl (Error ''At most 50 keywords are allowed per request'')
   \<and> runKeywordMetrics sampleUrl sampleConfig []
     = Inl (Error ''Provide at least one keyword'')
   \<and> runTrackedKeywordsAdd sampleUrl sampleConfig (''my-next-app'' # replicate 200 ''kw'')
     = Inr \<lparr>pathName = ''/api/cli/apps/planned/keywords'', httpMethod = ''POST'',
            bearer = Some ''secret-token'',
            body = Some (JObj [(''plannedTrackedAppId'', JStr ''my-next-app''),
                               (''platform'', JStr ''iphone''),
                               (''region'', JStr ''US''),
                               (''keywords'', JArr (map JStr (replicate 200 ''kw'')))])\<rparr>
   \<and> runTrackedKeywordsRemove sampleUrl sampleConfig (''my-next-app'' # replicate 201 ''kw'')
     = Inl (Error ''At most 200 keywords are allowed per request'')"
proof -
  have up: "toUpperCase (trim ''US'') = ''US''"
    by code_simp
  have flag: "takeFlag (replicate n ''kw'') ''--json'' = (False, replicate n ''kw'')" for n
    by (simp add: takeFlag_absent)
  have opt: "takeOption (replicate n ''kw'') name = Inr (None, replicate n ''kw'')"
    if "name \<noteq> ''kw''" for n name
    using that by (simp add: takeOption_absent)
  have flag': "takeFlag (''my-next-app'' # replicate n ''kw'') ''--json''
      = (False, ''my-next-app'' # replicate n ''kw'')" for n
    by (simp add: takeFlag_absent)
  have opt': "takeOption (''my-next-app'' # replicate n ''kw'') name
      = Inr (None, ''my-next-app'' # replicate n ''kw'')"
    if "name \<noteq> ''kw''" "name \<noteq> ''my-next-app''" for n name
    using that by (simp add: takeOption_absent)
  have 1: "runKeywordMetrics sampleUrl sampleConfig (replicate 50 ''kw'')
     = Inr \<lparr>pathName = ''/api/cli/keywords/metrics'', httpMethod = ''POST'',
            bearer = Some ''secret-token'',
            body = Some (JObj [(''region'', JStr ''US''),
                               (''keywords'', JArr (map JStr (replicate 50 ''kw''))),
                               (''appId'', JNull),
                               (''platform'', JStr ''iphone'')])\<rparr>"
    using keyword_count_caps
      [where url = sampleUrl and cfg = sampleConfig and j = False and rv = None and pv = None
         and a = None and token = "''secret-token''" and platform = "''iphone''"
         and rest = "replicate 50 ''kw''" and ?r1.0 = "replicate 50 ''kw''" and ?r2.0 = "replicate 50 ''kw''" and ?r3.0 = "replicate 50 ''kw''"
         and ?r4.0 = "replicate 50 ''kw''", THEN conjunct1]
    by (simp add: flag opt kw_consumeAppId kw_normal sample_token default_args up)
  have 2: "runKeywordMetrics sampleUrl sampleConfig (replicate 51 ''kw'')
     = Inl (Error ''At most 50 keywords are allowed per request'')"
    using keyword_count_caps
      [where url = sampleUrl and cfg = sampleConfig and j = False and rv = None and pv = None
         and a = None and token = "''secret-token''" and platform = "''iphone''"
         and rest = "replicate 51 ''kw''" and ?r1.0 = "replicate 51 ''kw''" and ?r2.0 = "replicate 51 ''kw''" and ?r3.0 = "replicate 51 ''kw''"
         and ?r4.0 = "replicate 51 ''kw''", THEN conjunct1]
    by (simp add: flag opt kw_consumeAppId kw_normal)
  have 3: "runKeywordMetrics sampleUrl sampleConfig [] = Inl (Error ''Provide at least one keyword'')"
    using keyword_count_caps
      [where url = sampleUrl and cfg = sampleConfig and j = False and rv = None and pv = None
         and a = None and token = "''secret-token''" and platform = "''iphone''"
         and rest = "[]" and ?r1.0 = "[]" and ?r2.0 = "[]" and ?r3.0 = "[]"
         and ?r4.0 = "[]", THEN conjunct1] flag [of 0] opt [of _ 0] kw_consumeAppId [of 0] kw_normal [of 0]
    by simp
  have 4: "runTrackedKeywordsAdd sampleUrl sampleConfig (''my-next-app'' # replicate 200 ''kw'')
     = Inr \<lparr>pathName = ''/api/cli/apps/planned/keywords'', httpMethod = ''POST'',
            bearer = Some ''secret-token'',
            body = Some (JObj [(''plannedTrackedAppId'', JStr ''my-next-app''),
                               (''platform'', JStr ''iphone''),
                               (''region'', JStr ''US''),
                               (''keywords'', JArr (map JStr (replicate 200 ''kw'')))])\<rparr>"
    using keyword_count_caps
      [where url = sampleUrl and cfg = sampleConfig and j = False and rv' = None and pv' = None
         and token = "''secret-token''" and platform' = "''iphone''" and region = "''US''"
         and target = "\<lparr>targetAppIdentifier = ''my-next-app'', targetAppId = None,
                         targetPlannedTrackedAppId = Some ''my-next-app''\<rparr>"
         and rest = "''my-next-app'' # replicate 200 ''kw''" and ?t1.0 = "''my-next-app'' # replicate 200 ''kw''" and ?t2.0 = "''my-next-app'' # replicate 200 ''kw''" and ?t3.0 = "''my-next-app'' # replicate 200 ''kw''"
         and ?t4.0 = "replicate 200 ''kw''", THEN conjunct2]
    by (simp add: flag' opt' planned_target kw_normal sample_token default_args
          trackedKeywordsBody_def truthy_def)
  have 5: "runTrackedKeywordsRemove sampleUrl sampleConfig (''my-next-app'' # replicate 201 ''kw'')
     = Inl (Error ''At most 200 keywords are allowed per request'')"
    using keyword_count_caps
      [where url = sampleUrl and cfg = sampleConfig and j = False and rv' = None and pv' = None
         and token = "''secret-token''" and platform' = "''iphone''" and region = "''US''"
         and target = "\<lparr>targetAppIdentifier = ''my-next-app'', targetAppId = None,
                         targetPlannedTrackedAppId = Some ''my-next-app''\<rparr>"
         and rest = "''my-next-app'' # replicate 201 ''kw''" and ?t1.0 = "''my-next-app'' # replicate 201 ''kw''" and ?t2.0 = "''my-next-app'' # replicate 201 ''kw''" and ?t3.0 = "''my-next-app'' # replicate 201 ''kw''"
         and ?t4.0 = "replicate 201 ''kw''", THEN conjunct2]
    by (simp add: flag' opt' planned_target kw_normal)
  from 1 2 3 4 5 show ?thesis by blast
qed

section \<open>Properties of the device login\<close>

lemma tryToken_no_request: "TokenRequest t d \<notin> set (fst (tryToken env res))"
  by (auto simp: tryToken_def Let_def split: sum.splits option.splits)

lemma tryToken_failure: "tryToken env (Inl e) = ([], Inl e)"
  by (simp add: tryToken_def)

lemma tryToken_invalid:
  assumes "trim (stringOrEmpty (tokenAccessToken t)) = [] \<or> trim (stringOrEmpty (tokenExpiresAt t)) = []"
  shows "tryToken env (Inr t) = ([], Inl (Error ''Server returned an invalid token response''))"
  using assms by (auto simp: tryToken_def Let_def)

lemma tryToken_saved:
  assumes "trim (stringOrEmpty (tokenAccessToken t)) \<noteq> []"
    and "trim (stringOrEmpty (tokenExpiresAt t)) \<noteq> []"
    and "saveResult env \<lparr>configAccessToken = Some (trim (stringOrEmpty (tokenAccessToken t))),
                          configExpiresAt = Some (trim (stringOrEmpty (tokenExpiresAt t)))\<rparr> = None"
  shows "tryToken env (Inr t) =
     ([SaveConfig \<lparr>configAccessToken = Some (trim (stringOrEmpty (tokenAccessToken t))),
                   configExpiresAt = Some (trim (stringOrEmpty (tokenExpiresAt t)))\<rparr>], Inr ())"
  using assms by (simp add: tryToken_def Let_def)

lemma pollLoop_timed_out:
  "deadline \<le> now \<Longrightarrow> pollLoop env dc iv deadline now k
     = ([], Inl (Error ''Authentication timed out. Run `asosuite login` again.''))"
  by (simp add: pollLoop.simps)

lemma pollLoop_pending:
  assumes "now < deadline" "fst (pollResult env k) = Inl e" "statusOf e = 428"
  shows "pollLoop env dc iv deadline now k =
     (TokenRequest now dc # Sleep (iv * 1000)
        # fst (pollLoop env dc iv deadline
                 (now + int (snd (pollResult env k)) + timerDelay (iv * 1000)) (Suc k)),
      snd (pollLoop env dc iv deadline
                 (now + int (snd (pollResult env k)) + timerDelay (iv * 1000)) (Suc k)))"
  using assms
  by (subst pollLoop.simps) (simp add: tryToken_failure split: prod.splits)

lemma pollLoop_terminal_failure:
  assumes "now < deadline" "fst (pollResult env k) = Inl e" "statusOf e \<noteq> 428"
  shows "pollLoop env dc iv deadline now k =
     ([TokenRequest now dc],
      Inl (if statusOf e = 410
           then Error ''Authorization request expired. Run `asosuite login` again.''
           else if statusOf e = 409 \<or> statusOf e = 400
           then Error ''Authorization request is no longer valid. Run `asosuite login` again.''
           else e))"
  using assms
  by (subst pollLoop.simps) (simp add: tryToken_failure)

lemma pollLoop_invalid_token:
  assumes "now < deadline" "fst (pollResult env k) = Inr t"
    and "trim (stringOrEmpty (tokenAccessToken t)) = [] \<or> trim (stringOrEmpty (tokenExpiresAt t)) = []"
  shows "pollLoop env dc iv deadline now k =
     ([TokenRequest now dc], Inl (Error ''Server returned an invalid token response''))"
  using assms(1,2) tryToken_invalid [OF assms(3), of env]
  by (subst pollLoop.simps) (simp add: statusOf_def)

lemma pollLoop_authenticated:
  assumes "now < deadline" "fst (pollResult env k) = Inr t"
    and "trim (stringOrEmpty (tokenAccessToken t)) \<noteq> []"
    and "trim (stringOrEmpty (tokenExpiresAt t)) \<noteq> []"
    and "saveResult env \<lparr>configAccessToken = Some (trim (stringOrEmpty (tokenAccessToken t))),
                          configExpiresAt = Some (trim (stringOrEmpty (tokenExpiresAt t)))\<rparr> = None"
  shows "pollLoop env dc iv deadline now k =
     ([TokenRequest now dc,
       SaveConfig \<lparr>configAccessToken = Some (trim (stringOrEmpty (tokenAccessToken t))),
                   configExpiresAt = Some (trim (stringOrEmpty (tokenExpiresAt t)))\<rparr>], Inr ())"
  using assms(1,2) tryToken_saved [OF assms(3,4,5)]
  by (subst pollLoop.simps) simp

lemma pollLoop_requests_before_deadline:
  "TokenRequest t d \<in> set (fst (pollLoop env dc iv deadline now k)) \<Longrightarrow> t < deadline"
proof (induction env dc iv deadline now k rule: pollLoop.induct)
  case (1 env dc iv deadline now k)
  show ?case
  proof (cases "now < deadline")
    case False
    with "1.prems" show ?thesis by (simp add: pollLoop_timed_out)
  next
    case True
    obtain evs r where tt: "tryToken env (fst (pollResult env k)) = (evs, r)"
      by (cases "tryToken env (fst (pollResult env k))")
    have no: "TokenRequest t d \<notin> set evs"
      using tryToken_no_request [of t d env "fst (pollResult env k)"] tt by simp
    show ?thesis
    proof (cases r)
      case (Inr u)
      with "1.prems" True tt no show ?thesis
        by (subst (asm) pollLoop.simps) auto
    next
      case (Inl err)
      show ?thesis
      proof (cases "statusOf err = 428")
        case False
        with "1.prems" True tt no Inl show ?thesis
          by (subst (asm) pollLoop.simps) (auto split: if_splits)
      next
        case p: True
        from "1.prems" True tt Inl p no
        have "t = now \<or> TokenRequest t d \<in> set (fst (pollLoop env dc iv deadline
                 (now + int (snd (pollResult env k)) + timerDelay (iv * 1000)) (Suc k)))"
          by (subst (asm) pollLoop.simps) (auto split: prod.splits)
        then show ?thesis
        proof
          assume "t = now" with True show ?thesis by simp
        next
          assume "TokenRequest t d \<in> set (fst (pollLoop env dc iv deadline
                 (now + int (snd (pollResult env k)) + timerDelay (iv * 1000)) (Suc k)))"
          with "1.IH" [OF True tt [symmetric] Inl p] show ?thesis by simp
        qed
      qed
    qed
  qed
qed

lemma sampleLogin_polls:
  "pollResult sampleLogin 0 = (Inl (HttpError ''Authorization pending'' 428 JNull), 50)"
  "pollResult sampleLogin (Suc 0) = (Inl (HttpError ''Authorization pending'' 428 JNull), 50)"
  "pollResult sampleLogin (Suc (Suc 0)) = (Inr sampleToken, 50)"
  "saveResult sampleLogin cfg = None"
  by (simp_all add: sampleLogin_def)

lemma sampleToken_trimmed:
  "trim (stringOrEmpty (tokenAccessToken sampleToken)) = ''secret-token''"
  "trim (stringOrEmpty (tokenExpiresAt sampleToken)) = ''2030-01-01T00:00:00.000Z''"
  by code_simp+

text \<open>
  C1. One turn of the polling loop. At or after the deadline no request is made and the
  flow ends as the timed-out failure. Before the deadline a token request is made, and:
  a failure with status 428 is followed by a sleep of \<open>pollIntervalSeconds\<close> seconds and
  the next turn of the loop; status 410 ends the flow as the expired failure; status 409
  or 400 as the no-longer-valid failure; a failure with any other status, or with none,
  is thrown on as it is, with no further request; a success whose two trimmed fields are
  non-empty writes exactly these two fields as the configuration and returns (when the
  file can be written); a success with an empty field ends as a fatal error. Every token
  request of the whole loop is made at a clock reading before the deadline.
\<close>

theorem poll_outcomes:
  "(deadline \<le> now \<longrightarrow>
      pollLoop env dc iv deadline now k
        = ([], Inl (Error ''Authentication timed out. Run `asosuite login` again.'')))
   \<and> (now < deadline \<longrightarrow>
        (\<forall>m p. fst (pollResult env k) = Inl (HttpError m 428 p) \<longrightarrow>
           pollLoop env dc iv deadline now k =
             (TokenRequest now dc # Sleep (iv * 1000)
                # fst (pollLoop env dc iv deadline
                         (now + int (snd (pollResult env k)) + timerDelay (iv * 1000)) (Suc k)),
              snd (pollLoop env dc iv deadline
                         (now + int (snd (pollResult env k)) + timerDelay (iv * 1000)) (Suc k))))
      \<and> (\<forall>m p. fst (pollResult env k) = Inl (HttpError m 410 p) \<longrightarrow>
           pollLoop env dc iv deadline now k =
             ([TokenRequest now dc],
              Inl (Error ''Authorization request expired. Run `asosuite login` again.'')))
      \<and> (\<forall>m st p. fst (pollResult env k) = Inl (HttpError m st p) \<and> (st = 409 \<or> st = 400) \<longrightarrow>
           pollLoop env dc iv deadline now k =
             ([TokenRequest now dc],
              Inl (Error ''Authorization request is no longer valid. Run `asosuite login` again.'')))
      \<and> (\<forall>e. fst (pollResult env k) = Inl e \<and> statusOf e \<noteq> 428 \<and> statusOf e \<noteq> 410
              \<and> statusOf e \<noteq> 409 \<and> statusOf e \<noteq> 400 \<longrightarrow>
           pollLoop env dc iv deadline now k = ([TokenRequest now dc], Inl e))
      \<and> (\<forall>t. fst (pollResult env k) = Inr t
              \<and> trim (stringOrEmpty (tokenAccessToken t)) \<noteq> []
              \<and> trim (stringOrEmpty (tokenExpiresAt t)) \<noteq> []
              \<and> saveResult env
                   \<lparr>configAccessToken = Some (trim (stringOrEmpty (tokenAccessToken t))),
                    configExpiresAt = Some (trim (stringOrEmpty (tokenExpiresAt t)))\<rparr> = None \<longrightarrow>
           pollLoop env dc iv deadline now k =
             ([TokenRequest now dc,
               SaveConfig \<lparr>configAccessToken = Some (trim (stringOrEmpty (tokenAccessToken t))),
                           configExpiresAt = Some (trim (stringOrEmpty (tokenExpiresAt t)))\<rparr>],
              Inr ()))
      \<and> (\<forall>t. fst (pollResult env k) = Inr t
              \<and> (trim (stringOrEmpty (tokenAccessToken t)) = []
                   \<or> trim (stringOrEmpty (tokenExpiresAt t)) = []) \<longrightarrow>
           pollLoop env dc iv deadline now k =
             ([TokenRequest now dc], Inl (Error ''Server returned an invalid token response''))))
   \<and> (\<forall>t d. TokenRequest t d \<in> set (fst (pollLoop env dc iv deadline now k)) \<longrightarrow> t < deadline)"
proof (intro conjI impI allI)
  show "pollLoop env dc iv deadline now k
        = ([], Inl (Error ''Authentication timed out. Run `asosuite login` again.''))"
    if "deadline \<le> now"
    using that by (rule pollLoop_timed_out)
  show "pollLoop env dc iv deadline now k =
             (TokenRequest now dc # Sleep (iv * 1000)
                # fst (pollLoop env dc iv deadline
                         (now + int (snd (pollResult env k)) + timerDelay (iv * 1000)) (Suc k)),
              snd (pollLoop env dc iv deadline
                         (now + int (snd (pollResult env k)) + timerDelay (iv * 1000)) (Suc k)))"
    if "now < deadline" "fst (pollResult env k) = Inl (HttpError m 428 p)" for m p
    using pollLoop_pending [OF that, of dc iv] by (simp add: statusOf_def)
  show "pollLoop env dc iv deadline now k =
             ([TokenRequest now dc],
              Inl (Error ''Authorization request expired. Run `asosuite login` again.''))"
    if "now < deadline" "fst (pollResult env k) = Inl (HttpError m 410 p)" for m p
    using pollLoop_terminal_failure [OF that, of dc iv] by (simp add: statusOf_def)
  show "pollLoop env dc iv deadline now k =
             ([TokenRequest now dc],
              Inl (Error ''Authorization request is no longer valid. Run `asosuite login` again.''))"
    if "now < deadline" "fst (pollResult env k) = Inl (HttpError m st p) \<and> (st = 409 \<or> st = 400)"
    for m st p
    using that pollLoop_terminal_failure [of now deadline env k "HttpError m st p" dc iv]
    by (auto simp: statusOf_def)
  show "pollLoop env dc iv deadline now k = ([TokenRequest now dc], Inl e)"
    if "now < deadline" "fst (pollResult env k) = Inl e \<and> statusOf e \<noteq> 428 \<and> statusOf e \<noteq> 410
              \<and> statusOf e \<noteq> 409 \<and> statusOf e \<noteq> 400" for e
    using that pollLoop_terminal_failure [of now deadline env k e dc iv] by simp
  show "pollLoop env dc iv deadline now k =
             ([TokenRequest now dc,
               SaveConfig \<lparr>configAccessToken = Some (trim (stringOrEmpty (tokenAccessToken t))),
                           configExpiresAt = Some (trim (stringOrEmpty (tokenExpiresAt t)))\<rparr>],
              Inr ())"
    if "now < deadline" "fst (pollResult env k) = Inr t
              \<and> trim (stringOrEmpty (tokenAccessToken t)) \<noteq> []
              \<and> trim (stringOrEmpty (tokenExpiresAt t)) \<noteq> []
              \<and> saveResult env
                   \<lparr>configAccessToken = Some (trim (stringOrEmpty (tokenAccessToken t))),
                    configExpiresAt = Some (trim (stringOrEmpty (tokenExpiresAt t)))\<rparr> = None" for t
    using that pollLoop_authenticated [of now deadline env k t dc iv] by blast
  show "pollLoop env dc iv deadline now k =
             ([TokenRequest now dc], Inl (Error ''Server returned an invalid token response''))"
    if "now < deadline" "fst (pollResult env k) = Inr t
              \<and> (trim (stringOrEmpty (tokenAccessToken t)) = []
                   \<or> trim (stringOrEmpty (tokenExpiresAt t)) = [])" for t
    using that pollLoop_invalid_token [of now deadline env k t dc iv] by blast
  show "t < deadline" if "TokenRequest t d \<in> set (fst (pollLoop env dc iv deadline now k))" for t d
    using that by (rule pollLoop_requests_before_deadline)
qed

theorem poll_outcomes_witness:
  "pollLoop sampleLogin ''device-1'' 1 601000 1000 0 =
     ([TokenRequest 1000 ''device-1'', Sleep 1000,
       TokenRequest 2050 ''device-1'', Sleep 1000,
       TokenRequest 3100 ''device-1'',
       SaveConfig \<lparr>configAccessToken = Some ''secret-token'',
                   configExpiresAt = Some ''2030-01-01T00:00:00.000Z''\<rparr>], Inr ())
   \<and> pollLoop sampleLogin ''device-1'' 1 601000 601000 7
       = ([], Inl (Error ''Authentication timed out. Run `asosuite login` again.''))"
proof -
  note step = poll_outcomes [where env = sampleLogin and dc = "''device-1''" and iv = 1
      and deadline = 601000]
  have 3: "pollLoop sampleLogin ''device-1'' 1 601000 3100 (Suc (Suc 0)) =
     ([TokenRequest 3100 ''device-1'',
       SaveConfig \<lparr>configAccessToken = Some ''secret-token'',
                   configExpiresAt = Some ''2030-01-01T00:00:00.000Z''\<rparr>], Inr ())"
    using step [where now = 3100 and k = "Suc (Suc 0)"]
    by (simp add: sampleLogin_polls sampleToken_trimmed)
  have 2: "pollLoop sampleLogin ''device-1'' 1 601000 2050 (Suc 0) =
     ([TokenRequest 2050 ''device-1'', Sleep 1000,
       TokenRequest 3100 ''device-1'',
       SaveConfig \<lparr>configAccessToken = Some ''secret-token'',
                   configExpiresAt = Some ''2030-01-01T00:00:00.000Z''\<rparr>], Inr ())"
    using step [where now = 2050 and k = "Suc 0"] 3
    by (simp add: sampleLogin_polls timerDelay_def)
  have 1: "pollLoop sampleLogin ''device-1'' 1 601000 1000 0 =
     ([TokenRequest 1000 ''device-1'', Sleep 1000,
       TokenRequest 2050 ''device-1'', Sleep 1000,
       TokenRequest 3100 ''device-1'',
       SaveConfig \<lparr>configAccessToken = Some ''secret-token'',
                   configExpiresAt = Some ''2030-01-01T00:00:00.000Z''\<rparr>], Inr ())"
    using step [where now = 1000 and k = 0] 2
    by (simp add: sampleLogin_polls timerDelay_def)
  have 0: "pollLoop sampleLogin ''device-1'' 1 601000 601000 7
       = ([], Inl (Error ''Authentication timed out. Run `asosuite login` again.''))"
    using step [where now = 601000 and k = 7] by simp
  from 1 0 show ?thesis by (intro conjI)
qed

lemma runAuthLogin_invalid_payload:
  assumes "takeFlag rest ''--no-open'' = (noOpen, [])" "startResult env = Inr start"
    and "trim (stringOrEmpty (startUserCode start)) = []
         \<or> trim (stringOrEmpty (startDeviceCode start)) = []"
  shows "runAuthLogin env rest
         = ([StartRequest], Inl (Error ''Server returned an invalid authentication payload''))"
  using assms by (auto simp: runAuthLogin_def Let_def split: prod.splits)

lemma runAuthLogin_polls:
  assumes "takeFlag rest ''--no-open'' = (noOpen, [])" "startResult env = Inr start"
    and "trim (stringOrEmpty (startUserCode start)) \<noteq> []"
    and "trim (stringOrEmpty (startDeviceCode start)) \<noteq> []"
  shows "runAuthLogin env rest =
     (StartRequest
        # fst (pollLoop env (trim (stringOrEmpty (startDeviceCode start)))
                 (case startPollIntervalSeconds start of
                    Some n \<Rightarrow> if 0 < n then n else 3 | None \<Rightarrow> 3)
                 (startedAt env
                    + (case startExpiresInSeconds start of
                         Some n \<Rightarrow> if 0 < n then n else 600 | None \<Rightarrow> 600) * 1000)
                 (startedAt env) 0),
      snd (pollLoop env (trim (stringOrEmpty (startDeviceCode start)))
                 (case startPollIntervalSeconds start of
                    Some n \<Rightarrow> if 0 < n then n else 3 | None \<Rightarrow> 3)
                 (startedAt env
                    + (case startExpiresInSeconds start of
                         Some n \<Rightarrow> if 0 < n then n else 600 | None \<Rightarrow> 600) * 1000)
                 (startedAt env) 0))"
  using assms
  by (cases "startPollIntervalSeconds start"; cases "startExpiresInSeconds start")
     (simp_all add: runAuthLogin_def Let_def DEFAULT_POLL_INTERVAL_SECONDS_def
        split: prod.splits)

lemma sampleLogin_loop:
  "pollLoop sampleLogin ''device-1'' 1 601000 1000 0 =
     ([TokenRequest 1000 ''device-1'', Sleep 1000,
       TokenRequest 2050 ''device-1'', Sleep 1000,
       TokenRequest 3100 ''device-1'',
       SaveConfig \<lparr>configAccessToken = Some ''secret-token'',
                   configExpiresAt = Some ''2030-01-01T00:00:00.000Z''\<rparr>], Inr ())"
  by code_simp

lemma sampleLoginDefaults_loop:
  "pollLoop sampleLoginDefaults ''device-1'' 3 601000 1000 0 =
     ([TokenRequest 1000 ''device-1'', Sleep 3000,
       TokenRequest 4050 ''device-1'', Sleep 3000,
       TokenRequest 7100 ''device-1'',
       SaveConfig \<lparr>configAccessToken = Some ''secret-token'',
                   configExpiresAt = Some ''2030-01-01T00:00:00.000Z''\<rparr>], Inr ())"
  by code_simp

lemma no_open_only: "takeFlag [''--no-open''] ''--no-open'' = (True, [])"
  "takeFlag [] ''--no-open'' = (False, [])"
  by code_simp+

text \<open>
  C8. After the start response has been received (and the arguments hold nothing but
  \<^verbatim>\<open>--no-open\<close>): when the trimmed user code or device code is empty, the flow fails
  with no token request; otherwise it polls with the trimmed device code, with the poll
  interval of the response when that is a positive number and 3 otherwise, until the
  deadline that lies the lifetime of the response, or 600 seconds when that is absent or
  not positive, after the start.
\<close>

theorem login_start:
  assumes "takeFlag rest ''--no-open'' = (noOpen, [])" and "startResult env = Inr start"
  shows "(trim (stringOrEmpty (startUserCode start)) = []
            \<or> trim (stringOrEmpty (startDeviceCode start)) = []
          \<longrightarrow> runAuthLogin env rest
              = ([StartRequest], Inl (Error ''Server returned an invalid authentication payload'')))
     \<and> (trim (stringOrEmpty (startUserCode start)) \<noteq> []
            \<and> trim (stringOrEmpty (startDeviceCode start)) \<noteq> []
          \<longrightarrow> runAuthLogin env rest =
             (StartRequest
                # fst (pollLoop env (trim (stringOrEmpty (startDeviceCode start)))
                         (case startPollIntervalSeconds start of
                            Some n \<Rightarrow> if 0 < n then n else 3 | None \<Rightarrow> 3)
                         (startedAt env
                            + (case startExpiresInSeconds start of
                                 Some n \<Rightarrow> if 0 < n then n else 600 | None \<Rightarrow> 600) * 1000)
                         (startedAt env) 0),
              snd (pollLoop env (trim (stringOrEmpty (startDeviceCode start)))
                         (case startPollIntervalSeconds start of
                            Some n \<Rightarrow> if 0 < n then n else 3 | None \<Rightarrow> 3)
                         (startedAt env
                            + (case startExpiresInSeconds start of
                                 Some n \<Rightarrow> if 0 < n then n else 600 | None \<Rightarrow> 600) * 1000)
                         (startedAt env) 0)))"
  using runAuthLogin_invalid_payload [OF assms] runAuthLogin_polls [OF assms]
  by (intro conjI impI) simp_all

theorem login_start_witness:
  "runAuthLogin sampleLogin [''--no-open''] =
     ([StartRequest, TokenRequest 1000 ''device-1'', Sleep 1000,
       TokenRequest 2050 ''device-1'', Sleep 1000,
       TokenRequest 3100 ''device-1'',
       SaveConfig \<lparr>configAccessToken = Some ''secret-token'',
                   configExpiresAt = Some ''2030-01-01T00:00:00.000Z''\<rparr>], Inr ())
   \<and> runAuthLogin sampleLoginDefaults [] =
     ([StartRequest, TokenRequest 1000 ''device-1'', Sleep 3000,
       TokenRequest 4050 ''device-1'', Sleep 3000,
       TokenRequest 7100 ''device-1'',
       SaveConfig \<lparr>configAccessToken = Some ''secret-token'',
                   configExpiresAt = Some ''2030-01-01T00:00:00.000Z''\<rparr>], Inr ())
   \<and> runAuthLogin sampleLoginNoCode []
       = ([StartRequest], Inl (Error ''Server returned an invalid authentication payload''))"
proof (intro conjI)
  have t: "trim ''ABCD-1234'' = ''ABCD-1234''" "trim ''device-1'' = ''device-1''" "trim ''  '' = []"
    by code_simp+
  have s1: "startResult sampleLogin =
      Inr \<lparr>startUserCode = Some ''ABCD-1234'', startDeviceCode = Some ''device-1'',
           startPollIntervalSeconds = Some 1, startExpiresInSeconds = None\<rparr>"
    "startedAt sampleLogin = 1000"
    by (simp_all add: sampleLogin_def)
  have s2: "startResult sampleLoginDefaults =
      Inr \<lparr>startUserCode = Some ''ABCD-1234'', startDeviceCode = Some ''device-1'',
           startPollIntervalSeconds = Some 0, startExpiresInSeconds = None\<rparr>"
    "startedAt sampleLoginDefaults = 1000"
    by (simp_all add: sampleLoginDefaults_def sampleLogin_def)
  have s3: "startResult sampleLoginNoCode =
      Inr \<lparr>startUserCode = Some ''ABCD-1234'', startDeviceCode = Some ''  '',
           startPollIntervalSeconds = Some 1, startExpiresInSeconds = Some 900\<rparr>"
    by (simp add: sampleLoginNoCode_def)
  show "runAuthLogin sampleLogin [''--no-open''] =
     ([StartRequest, TokenRequest 1000 ''device-1'', Sleep 1000,
       TokenRequest 2050 ''device-1'', Sleep 1000,
       TokenRequest 3100 ''device-1'',
       SaveConfig \<lparr>configAccessToken = Some ''secret-token'',
                   configExpiresAt = Some ''2030-01-01T00:00:00.000Z''\<rparr>], Inr ())"
    using login_start [OF no_open_only(1) s1(1)]
    by (simp add: stringOrEmpty_def t s1(2) sampleLogin_loop)
  show "runAuthLogin sampleLoginDefaults [] =
     ([StartRequest, TokenRequest 1000 ''device-1'', Sleep 3000,
       TokenRequest 4050 ''device-1'', Sleep 3000,
       TokenRequest 7100 ''device-1'',
       SaveConfig \<lparr>configAccessToken = Some ''secret-token'',
                   configExpiresAt = Some ''2030-01-01T00:00:00.000Z''\<rparr>], Inr ())"
    using login_start [OF no_open_only(2) s2(1)]
    by (simp add: stringOrEmpty_def t s2(2) sampleLoginDefaults_loop)
  show "runAuthLogin sampleLoginNoCode []
       = ([StartRequest], Inl (Error ''Server returned an invalid authentication payload''))"
    using login_start [OF no_open_only(2) s3]
    by (simp add: stringOrEmpty_def t)
qed

end
